theory Spec2Isabelle
  imports Complex_Main
begin

section \<open>Conventions of the embedding\<close>

text \<open>
  The plugin is TypeScript. Its \<open>number\<close>s that carry money and quantities are
  modelled as \<^typ>\<open>real\<close> (IEEE rounding, infinities and NaN are not modelled; every
  theorem that mentions a quotient says when its divisor is non-zero), timestamps
  (\<open>Date.now()\<close>, milliseconds) as \<^typ>\<open>int\<close>, strings as \<^typ>\<open>string\<close>, \<open>null\<close> and
  \<open>undefined\<close> results as \<open>None\<close>, and a thrown exception as the left injection of a sum.

  Everything the code reads from outside is an oracle stored in the state: the \<open>k\<close>-th
  external HTTP call, the \<open>k\<close>-th reading of the clock and the \<open>k\<close>-th random UUID. The
  state also holds what the code mutates: the module-level cache of the market data
  service and the memories of the database adapter. Each source function becomes a
  function from the state to a result and the next state.
\<close>

subsection \<open>Strings\<close>

definition toLowerCase_char :: "char \<Rightarrow> char" where
  "toLowerCase_char c =
     (let n = (of_char c :: nat) in if 65 \<le> n \<and> n \<le> 90 then char_of (n + 32) else c)"

definition toUpperCase_char :: "char \<Rightarrow> char" where
  "toUpperCase_char c =
     (let n = (of_char c :: nat) in if 97 \<le> n \<and> n \<le> 122 then char_of (n - 32) else c)"

text \<open>\<open>String.prototype.toLowerCase\<close> and \<open>toUpperCase\<close> on the ASCII letters; every
  other byte is kept.\<close>

definition toLowerCase :: "string \<Rightarrow> string" where
  "toLowerCase s = map toLowerCase_char s"

definition toUpperCase :: "string \<Rightarrow> string" where
  "toUpperCase s = map toUpperCase_char s"

text \<open>A non-negative integer inside a template literal: its decimal digits.\<close>

fun string_of_nat :: "nat \<Rightarrow> string" where
  "string_of_nat n =
     (if n < 10 then [char_of (48 + n)]
      else string_of_nat (n div 10) @ [char_of (48 + n mod 10)])"

declare string_of_nat.simps [simp del]

section \<open>The market data service\<close>

subsection \<open>Data\<close>

text \<open>The interface \<open>CryptoPrice\<close>. Its fields \<open>id\<close>, \<open>symbol\<close> and \<open>name\<close> carry the
  prefix \<open>coin_\<close>: \<open>id\<close> is a constant of HOL, and the other two are fields of
  \<open>PortfolioItem\<close> as well.\<close>

record CryptoPrice =
  coin_id :: string
  coin_symbol :: string
  coin_name :: string
  current_price :: real
  market_cap :: real
  market_cap_rank :: nat
  price_change_percentage_24h :: real
  price_change_percentage_7d :: "real option"
  price_change_percentage_30d :: "real option"
  high_24h :: real
  low_24h :: real
  last_updated :: string

text \<open>What \<open>response.json()\<close> yields: the rows of the \<open>/coins/markets\<close> endpoint, or any
  other JSON value (an object, as the detail endpoint returns, has no \<open>find\<close> method).\<close>

datatype payload = Markets "CryptoPrice list" | OtherJson

text \<open>A thrown \<open>Error\<close> with its message.\<close>

datatype error = Error string

text \<open>The outcome of one \<open>fetch(url)\<close>: the promise rejects (network error), or it
  resolves to a response whose \<open>json()\<close> either rejects (malformed body) or yields a
  payload.\<close>

record response =
  ok :: bool
  status :: nat
  statusText :: string
  json :: "string + payload"

datatype fetch_result = Rejected string | Resolved response

record cache_entry =
  data :: payload
  timestamp :: int

subsection \<open>The database adapter's rows\<close>

record PortfolioItem =
  coinId :: string
  symbol :: string
  name :: string
  quantity :: real
  purchasePrice :: real
  purchaseDate :: int

text \<open>The content of a memory, as the portfolio code reads it: \<open>action\<close>, \<open>userId\<close>,
  \<open>items\<close>, \<open>lastUpdated\<close> and \<open>text\<close> (here \<open>text_c\<close>). Content that arrives as a JSON
  string is taken as already parsed.\<close>

record PortfolioContent =
  action :: string
  userId :: string
  items :: "PortfolioItem list"
  lastUpdated :: int
  text_c :: string

text \<open>The \<open>Memory\<close> of the agent framework, with the fields the plugin sets. \<open>id\<close> and
  \<open>userId\<close> carry the prefix \<open>mem_\<close>.\<close>

record Memory =
  mem_id :: string
  mem_userId :: string
  roomId :: string
  agentId :: string
  content :: PortfolioContent
  createdAt :: int
  unique :: bool
  embedding :: "real list option"

record IAgentRuntime =
  runtime_agentId :: string

subsection \<open>The state\<close>

record world =
  cache :: "string \<rightharpoonup> cache_entry"
  memories :: "Memory list"
  net :: "nat \<Rightarrow> string \<Rightarrow> fetch_result"
  requests :: "string list"
  clock :: "nat \<Rightarrow> int"
  clock_reads :: nat
  uuids :: "nat \<Rightarrow> string"
  uuid_reads :: nat

text \<open>\<open>Date.now()\<close>: the next reading of the clock.\<close>

definition Date_now :: "world \<Rightarrow> int \<times> world" where
  "Date_now w = (clock w (clock_reads w), w\<lparr>clock_reads := Suc (clock_reads w)\<rparr>)"

text \<open>\<open>uuidv4()\<close>: the next random identifier.\<close>

definition uuidv4 :: "world \<Rightarrow> string \<times> world" where
  "uuidv4 w = (uuids w (uuid_reads w), w\<lparr>uuid_reads := Suc (uuid_reads w)\<rparr>)"

text \<open>\<open>fetch(url)\<close>: one external call. The call is logged in \<open>requests\<close>; its outcome is
  what the network answers to the call with that index.\<close>

definition fetch :: "string \<Rightarrow> world \<Rightarrow> fetch_result \<times> world" where
  "fetch url w = (net w (length (requests w)) url, w\<lparr>requests := requests w @ [url]\<rparr>)"

subsection \<open>\<open>apiRequest\<close>\<close>

definition API_BASE_URL :: string where
  "API_BASE_URL = ''https://api.coingecko.com/api/v3''"

definition CACHE_DURATION :: int where
  "CACHE_DURATION = 60000"

text \<open>The \<open>try\<close> block of \<open>apiRequest\<close>: the external call, the status check, the body,
  the cache update. Its \<open>catch\<close> logs and rethrows, so each failure is the \<open>Inl\<close> result.\<close>

definition apiRequest_try :: "string \<Rightarrow> string \<Rightarrow> int \<Rightarrow> world \<Rightarrow> (error + payload) \<times> world" where
  "apiRequest_try url endpoint now w =
     (case fetch url w of
        (Rejected msg, w1) \<Rightarrow> (Inl (Error msg), w1)
      | (Resolved resp, w1) \<Rightarrow>
          if \<not> ok resp
          then (Inl (Error (''API error: '' @ string_of_nat (status resp) @ '' '' @ statusText resp)), w1)
          else (case json resp of
                  Inl msg \<Rightarrow> (Inl (Error msg), w1)
                | Inr d \<Rightarrow>
                    (Inr d, w1\<lparr>cache := (cache w1)(endpoint \<mapsto> \<lparr>data = d, timestamp = now\<rparr>)\<rparr>)))"

definition apiRequest :: "string \<Rightarrow> world \<Rightarrow> (error + payload) \<times> world" where
  "apiRequest endpoint w =
     (let url = API_BASE_URL @ endpoint in
      case Date_now w of
        (now, w1) \<Rightarrow>
          (case cache w1 endpoint of
             Some e \<Rightarrow>
               if now - timestamp e < CACHE_DURATION then (Inr (data e), w1)
               else apiRequest_try url endpoint now w1
           | None \<Rightarrow> apiRequest_try url endpoint now w1))"

subsection \<open>\<open>getTopCryptos\<close> and \<open>getCryptoByIdOrSymbol\<close>\<close>

definition markets_endpoint :: "nat \<Rightarrow> string \<Rightarrow> string" where
  "markets_endpoint count currency =
     ''/coins/markets?vs_currency='' @ currency @ ''&order=market_cap_desc&per_page=''
       @ string_of_nat count @ ''&page=1&sparkline=false''"

definition getTopCryptos :: "nat \<Rightarrow> string \<Rightarrow> world \<Rightarrow> (error + payload) \<times> world" where
  "getTopCryptos count currency w = apiRequest (markets_endpoint count currency) w"

text \<open>\<open>topCoins.find(c => c.id === normalized || c.symbol.toLowerCase() === normalized)\<close>.\<close>

definition matches :: "string \<Rightarrow> CryptoPrice \<Rightarrow> bool" where
  "matches normalized c \<longleftrightarrow> coin_id c = normalized \<or> toLowerCase (coin_symbol c) = normalized"

text \<open>The resolver. A failed request, and a payload that is not an array (the call of
  \<open>find\<close> raises a \<open>TypeError\<close>), end in the \<open>catch\<close>, which returns \<open>null\<close>.\<close>

definition getCryptoByIdOrSymbol :: "string \<Rightarrow> string \<Rightarrow> world \<Rightarrow> CryptoPrice option \<times> world" where
  "getCryptoByIdOrSymbol idOrSymbol currency w =
     (let normalized = toLowerCase idOrSymbol in
      case getTopCryptos 100 currency w of
        (Inr (Markets topCoins), w1) \<Rightarrow> (find (matches normalized) topCoins, w1)
      | (Inr OtherJson, w1) \<Rightarrow> (None, w1)
      | (Inl e, w1) \<Rightarrow> (None, w1))"

section \<open>The portfolio service\<close>

subsection \<open>\<open>ensureUUID\<close>\<close>

definition is_hex :: "char \<Rightarrow> bool" where
  "is_hex c =
     (let n = (of_char c :: nat)
      in (48 \<le> n \<and> n \<le> 57) \<or> (97 \<le> n \<and> n \<le> 102) \<or> (65 \<le> n \<and> n \<le> 70))"

text \<open>The test
  \<^verbatim>\<open>/^[0-9a-f]{8}-[0-9a-f]{4}-[0-9a-f]{4}-[0-9a-f]{4}-[0-9a-f]{12}$/i\<close>.\<close>

definition is_uuid :: "string \<Rightarrow> bool" where
  "is_uuid s \<longleftrightarrow>
     length s = 36 \<and>
     list_all is_hex (take 8 s) \<and> s ! 8 = CHR ''-'' \<and>
     list_all is_hex (take 4 (drop 9 s)) \<and> s ! 13 = CHR ''-'' \<and>
     list_all is_hex (take 4 (drop 14 s)) \<and> s ! 18 = CHR ''-'' \<and>
     list_all is_hex (take 4 (drop 19 s)) \<and> s ! 23 = CHR ''-'' \<and>
     list_all is_hex (drop 24 s)"

definition ensureUUID :: "string \<Rightarrow> world \<Rightarrow> string \<times> world" where
  "ensureUUID v w = (if is_uuid v then (v, w) else uuidv4 w)"

subsection \<open>The database adapter\<close>

text \<open>
  The adapter belongs to the agent framework. It is modelled as a table of memories:
  \<open>getMemories\<close> selects the rows of a room and an agent, newest first, at most \<open>count\<close>
  of them; \<open>updateMemory\<close> replaces the row with the given id; \<open>createMemory\<close> adds a row.
  The table name is always \<open>memories\<close>. The calls are taken to succeed, so the \<open>catch\<close>
  blocks of the portfolio service that only guard the adapter have no branch here.
\<close>

definition newest_first :: "Memory list \<Rightarrow> Memory list" where
  "newest_first ms = sort_key (\<lambda>m. - createdAt m) ms"

definition getMemories :: "string \<Rightarrow> nat \<Rightarrow> string \<Rightarrow> world \<Rightarrow> Memory list" where
  "getMemories room count agent w =
     take count (newest_first (filter (\<lambda>m. roomId m = room \<and> agentId m = agent) (memories w)))"

definition updateMemory :: "string \<Rightarrow> Memory \<Rightarrow> world \<Rightarrow> world" where
  "updateMemory i m w = w\<lparr>memories := map (\<lambda>x. if mem_id x = i then m else x) (memories w)\<rparr>"

definition createMemory :: "Memory \<Rightarrow> world \<Rightarrow> world" where
  "createMemory m w = w\<lparr>memories := memories w @ [m]\<rparr>"

subsection \<open>\<open>getPortfolioMemory\<close> and \<open>savePortfolio\<close>\<close>

text \<open>The agent id written into \<open>getPortfolioMemory\<close> and into the \<open>userId\<close> of a new
  memory.\<close>

definition PORTFOLIO_AGENT :: string where
  "PORTFOLIO_AGENT = ''b850bc30-45f8-0041-a00a-83df46d8555d''"

definition is_portfolio_of :: "string \<Rightarrow> Memory \<Rightarrow> bool" where
  "is_portfolio_of uid m \<longleftrightarrow> action (content m) = ''CRYPTO_PORTFOLIO'' \<and> userId (content m) = uid"

definition getPortfolioMemory :: "IAgentRuntime \<Rightarrow> string \<Rightarrow> world \<Rightarrow> Memory option \<times> world" where
  "getPortfolioMemory runtime uid w =
     (case ensureUUID uid w of
        (room, w1) \<Rightarrow>
          (let mems = getMemories room 100 PORTFOLIO_AGENT w1;
               portfolioMemories = newest_first (filter (is_portfolio_of uid) mems)
           in (case portfolioMemories of [] \<Rightarrow> None | m # _ \<Rightarrow> Some m, w1)))"

definition savePortfolio :: "IAgentRuntime \<Rightarrow> string \<Rightarrow> PortfolioItem list \<Rightarrow> world \<Rightarrow> world" where
  "savePortfolio runtime uid portfolio w =
     (case ensureUUID uid w of
        (room, w1) \<Rightarrow>
          (case getPortfolioMemory runtime uid w1 of
             (Some existingMemory, w2) \<Rightarrow>
               (case Date_now w2 of
                  (t, w3) \<Rightarrow>
                    updateMemory (mem_id existingMemory)
                      (existingMemory
                         \<lparr>content := (content existingMemory)
                            \<lparr>userId := uid, items := portfolio, lastUpdated := t\<rparr>,
                          embedding := None\<rparr>) w3)
           | (None, w2) \<Rightarrow>
               (case uuidv4 w2 of
                  (u, w3) \<Rightarrow>
                    (case ensureUUID u w3 of
                       (i, w4) \<Rightarrow>
                         (case Date_now w4 of
                            (t, w5) \<Rightarrow>
                              (case Date_now w5 of
                                 (c, w6) \<Rightarrow>
                                   createMemory
                                     \<lparr>mem_id = i, mem_userId = PORTFOLIO_AGENT, roomId = room,
                                      agentId = runtime_agentId runtime,
                                      content =
                                        \<lparr>action = ''CRYPTO_PORTFOLIO'', userId = uid,
                                         items = portfolio, lastUpdated = t, text_c = []\<rparr>,
                                      createdAt = c, unique = True, embedding = None\<rparr> w6))))))"

subsection \<open>\<open>addToPortfolio\<close>\<close>

text \<open>\<open>Array.prototype.findIndex\<close>; \<open>None\<close> stands for \<open>-1\<close>.\<close>

fun findIndex :: "('a \<Rightarrow> bool) \<Rightarrow> 'a list \<Rightarrow> nat option" where
  "findIndex P [] = None"
| "findIndex P (x # xs) = (if P x then Some 0 else map_option Suc (findIndex P xs))"

text \<open>
  The merge. It has no check of \<open>quantity\<close> or \<open>purchasePrice\<close>. Where \<open>totalQuantity\<close>
  is zero the program's quotient is \<open>NaN\<close> or an infinity, which a real number cannot
  hold: no statement below is about that case.
\<close>

definition addToPortfolio ::
  "IAgentRuntime \<Rightarrow> string \<Rightarrow> string \<Rightarrow> real \<Rightarrow> real \<Rightarrow> world \<Rightarrow> PortfolioItem option \<times> world" where
  "addToPortfolio runtime uid cid qty price w =
     (case getCryptoByIdOrSymbol cid ''usd'' w of
        (None, w1) \<Rightarrow> (None, w1)
      | (Some coin, w1) \<Rightarrow>
          (case getPortfolioMemory runtime uid w1 of
             (portfolioMemory, w2) \<Rightarrow>
               (let portfolio = (case portfolioMemory of None \<Rightarrow> [] | Some m \<Rightarrow> items (content m))
                in case Date_now w2 of
                     (t, w3) \<Rightarrow>
                       (let newItem =
                              \<lparr>coinId = coin_id coin, symbol = toUpperCase (coin_symbol coin),
                               name = coin_name coin, quantity = qty, purchasePrice = price,
                               purchaseDate = t\<rparr>
                        in case findIndex (\<lambda>item. coinId item = coin_id coin) portfolio of
                             Some existingItemIndex \<Rightarrow>
                               (let existingItem = portfolio ! existingItemIndex;
                                    totalQuantity = quantity existingItem + qty;
                                    totalValue = quantity existingItem * purchasePrice existingItem
                                                   + qty * price;
                                    newAveragePrice = totalValue / totalQuantity
                                in case Date_now w3 of
                                     (t', w4) \<Rightarrow>
                                       (let portfolio' = portfolio[existingItemIndex :=
                                              existingItem\<lparr>quantity := totalQuantity,
                                                purchasePrice := newAveragePrice,
                                                purchaseDate := t'\<rparr>]
                                        in (Some (portfolio' ! existingItemIndex),
                                            savePortfolio runtime uid portfolio' w4)))
                           | None \<Rightarrow>
                               (Some newItem,
                                savePortfolio runtime uid (portfolio @ [newItem]) w3)))))"

subsection \<open>\<open>getPortfolio\<close> and \<open>hasPortfolio\<close>\<close>

text \<open>A stored item with the two optional fields \<open>getPortfolio\<close> adds. A field that is
  \<open>None\<close> is a key the object does not have.\<close>

record ValuedItem = PortfolioItem +
  currentPrice :: "real option"
  priceChange24h :: "real option"

text \<open>\<open>[...portfolio]\<close>: the stored item, no price yet.\<close>

definition unpriced :: "PortfolioItem \<Rightarrow> ValuedItem" where
  "unpriced item =
     \<lparr>coinId = coinId item, symbol = symbol item, name = name item, quantity = quantity item,
      purchasePrice = purchasePrice item, purchaseDate = purchaseDate item,
      currentPrice = None, priceChange24h = None\<rparr>"

text \<open>The \<open>for\<close> loop of \<open>getPortfolio\<close>, one resolver call for each item. The resolver
  does not throw, so the inner \<open>catch\<close> has no branch.\<close>

fun updatePrices :: "PortfolioItem list \<Rightarrow> world \<Rightarrow> ValuedItem list \<times> world" where
  "updatePrices [] w = ([], w)"
| "updatePrices (item # rest) w =
     (case getCryptoByIdOrSymbol (coinId item) ''usd'' w of
        (Some coin, w1) \<Rightarrow>
          (case updatePrices rest w1 of
             (rest', w2) \<Rightarrow>
               ((unpriced item)\<lparr>currentPrice := Some (current_price coin),
                   priceChange24h := Some (price_change_percentage_24h coin)\<rparr> # rest', w2))
      | (None, w1) \<Rightarrow>
          (case updatePrices rest w1 of (rest', w2) \<Rightarrow> (unpriced item # rest', w2)))"

record PortfolioView =
  view_items :: "ValuedItem list"
  view_lastUpdated :: int

definition getPortfolio :: "IAgentRuntime \<Rightarrow> string \<Rightarrow> world \<Rightarrow> PortfolioView option \<times> world" where
  "getPortfolio runtime uid w =
     (case getPortfolioMemory runtime uid w of
        (None, w1) \<Rightarrow> (None, w1)
      | (Some portfolioMemory, w1) \<Rightarrow>
          (let portfolio = items (content portfolioMemory) in
           if portfolio = [] then (None, w1)
           else (case Date_now w1 of
                   (t, w2) \<Rightarrow>
                     (case updatePrices portfolio w2 of
                        (its, w3) \<Rightarrow> (Some \<lparr>view_items = its, view_lastUpdated = t\<rparr>, w3)))))"

definition hasPortfolio :: "IAgentRuntime \<Rightarrow> string \<Rightarrow> world \<Rightarrow> bool \<times> world" where
  "hasPortfolio runtime uid w =
     (case getPortfolioMemory runtime uid w of
        (None, w1) \<Rightarrow> (False, w1)
      | (Some portfolioMemory, w1) \<Rightarrow> (items (content portfolioMemory) \<noteq> [], w1))"

section \<open>The actions\<close>

subsection \<open>The numbers of the portfolio view\<close>

text \<open>
  The handler of \<open>VIEW_PORTFOLIO\<close> renders text. The model keeps the numbers it renders:
  one row for each item that has a \<open>currentPrice\<close>, and the totals. A quotient whose
  divisor is zero is \<open>NaN\<close> or an infinity in the program; no statement below is about
  such a quotient.
\<close>

record Row =
  row_symbol :: string
  invested :: real
  currentValue :: real
  profitLoss :: real
  profitLossPercent :: real

text \<open>The loop over \<open>portfolio.items\<close>, with its accumulators \<open>totalInvested\<close>,
  \<open>totalCurrentValue\<close> and the lines of the response.\<close>

fun view_loop :: "ValuedItem list \<Rightarrow> real \<Rightarrow> real \<Rightarrow> Row list \<Rightarrow> real \<times> real \<times> Row list" where
  "view_loop [] totalInvested totalCurrentValue lines = (totalInvested, totalCurrentValue, lines)"
| "view_loop (item # rest) totalInvested totalCurrentValue lines =
     (case currentPrice item of
        None \<Rightarrow> view_loop rest totalInvested totalCurrentValue lines
      | Some price \<Rightarrow>
          (let invested = quantity item * purchasePrice item;
               currentValue = quantity item * price;
               profitLoss = currentValue - invested;
               profitLossPercent = (profitLoss / invested) * 100
           in view_loop rest (totalInvested + invested) (totalCurrentValue + currentValue)
                (lines @ [\<lparr>row_symbol = symbol item, invested = invested,
                            currentValue = currentValue, profitLoss = profitLoss,
                            profitLossPercent = profitLossPercent\<rparr>])))"

record Summary =
  rows :: "Row list"
  totalInvested :: real
  totalCurrentValue :: real
  totalProfitLoss :: real
  totalProfitLossPercent :: real
  shown_lastUpdated :: int

definition view_summary :: "PortfolioView \<Rightarrow> Summary" where
  "view_summary portfolio =
     (case view_loop (view_items portfolio) 0 0 [] of
        (ti, tc, lines) \<Rightarrow>
          \<lparr>rows = lines, totalInvested = ti, totalCurrentValue = tc,
           totalProfitLoss = tc - ti, totalProfitLossPercent = ((tc - ti) / ti) * 100,
           shown_lastUpdated = view_lastUpdated portfolio\<rparr>)"

text \<open>What the handler says: the user has no portfolio, the portfolio could not be read,
  or the view.\<close>

datatype view_reply = NoPortfolioYet | CouldNotRetrieve | Shown Summary

text \<open>The handler of \<open>VIEW_PORTFOLIO\<close>, after \<open>detectPortfolioRequest\<close> has accepted the
  message.\<close>

definition viewPortfolio_handler :: "IAgentRuntime \<Rightarrow> string \<Rightarrow> world \<Rightarrow> view_reply \<times> world" where
  "viewPortfolio_handler runtime uid w =
     (case hasPortfolio runtime uid w of
        (False, w1) \<Rightarrow> (NoPortfolioYet, w1)
      | (True, w1) \<Rightarrow>
          (case getPortfolio runtime uid w1 of
             (None, w2) \<Rightarrow> (CouldNotRetrieve, w2)
           | (Some portfolio, w2) \<Rightarrow>
               if view_items portfolio = [] then (CouldNotRetrieve, w2)
               else (Shown (view_summary portfolio), w2)))"

subsection \<open>Adding a purchase\<close>

text \<open>\<open>String.prototype.includes\<close>, here \<open>str_includes\<close>: \<open>t\<close> occurs in \<open>s\<close>.\<close>

fun str_includes :: "string \<Rightarrow> string \<Rightarrow> bool" where
  "str_includes [] t \<longleftrightarrow> t = []"
| "str_includes (c # s) t \<longleftrightarrow> take (length t) (c # s) = t \<or> str_includes s t"

text \<open>The table of \<open>extractCoinPurchaseData\<close>, in the order of its keys.\<close>

definition cryptoMap :: "(string \<times> string) list" where
  "cryptoMap =
     [(''bitcoin'', ''bitcoin''), (''btc'', ''bitcoin''), (''ethereum'', ''ethereum''),
      (''eth'', ''ethereum''), (''binance'', ''binancecoin''), (''bnb'', ''binancecoin''),
      (''xrp'', ''ripple''), (''ripple'', ''ripple''), (''cardano'', ''cardano''),
      (''ada'', ''cardano''), (''solana'', ''solana''), (''sol'', ''solana''),
      (''dogecoin'', ''dogecoin''), (''doge'', ''dogecoin''), (''polkadot'', ''polkadot''),
      (''dot'', ''polkadot'')]"

text \<open>
  \<open>extractCoinPurchaseData\<close> looks for a coin of its table in the lowercased message,
  then scans it for a quantity and for a price. The two scans (a list of regular
  expressions each, and \<open>parseFloat\<close>) are parameters: \<open>scanQuantity\<close> and \<open>scanPrice\<close>
  give the number the loop leaves in \<open>quantity\<close> and in \<open>price\<close>, which is \<open>0\<close> where no
  pattern matched. The lookup, the order of the steps and the three checks are the
  function's own.
\<close>

definition extractCoinPurchaseData ::
  "(string \<Rightarrow> real) \<Rightarrow> (string \<Rightarrow> real) \<Rightarrow> string \<Rightarrow> (string \<times> real \<times> real) option" where
  "extractCoinPurchaseData scanQuantity scanPrice input =
     (let normalizedText = toLowerCase input;
          coinId = (case find (\<lambda>(key, i). str_includes normalizedText key) cryptoMap of
                      Some (key, i) \<Rightarrow> i
                    | None \<Rightarrow> [])
      in if coinId = [] then None
         else (let quantity = scanQuantity normalizedText
               in if quantity \<le> 0 then None
                  else (let price = scanPrice normalizedText
                        in if price \<le> 0 then None else Some (coinId, quantity, price))))"

datatype add_reply = NeedDetails | CouldNotFind string | Added PortfolioItem real

text \<open>The handler of \<open>ADD_TO_PORTFOLIO\<close>, after \<open>detectPortfolioAddition\<close> has accepted the
  message.\<close>

definition addToPortfolio_handler ::
  "(string \<Rightarrow> real) \<Rightarrow> (string \<Rightarrow> real) \<Rightarrow> IAgentRuntime \<Rightarrow> string \<Rightarrow> string \<Rightarrow> world
     \<Rightarrow> add_reply \<times> world" where
  "addToPortfolio_handler scanQuantity scanPrice runtime uid input w =
     (case extractCoinPurchaseData scanQuantity scanPrice input of
        None \<Rightarrow> (NeedDetails, w)
      | Some (cid, qty, price) \<Rightarrow>
          (case addToPortfolio runtime uid cid qty price w of
             (None, w1) \<Rightarrow> (CouldNotFind cid, w1)
           | (Some result, w1) \<Rightarrow> (Added result (qty * price), w1)))"

section \<open>What the resolver answers during a valuation\<close>

text \<open>The answers of the resolver to a list of asset ids, asked one after the other
  from the state \<open>w\<close>, as the loop of \<open>getPortfolio\<close> asks them.\<close>

fun resolutions :: "string list \<Rightarrow> world \<Rightarrow> CryptoPrice option list" where
  "resolutions [] w = []"
| "resolutions (c # cs) w =
     (case getCryptoByIdOrSymbol c ''usd'' w of (r, w1) \<Rightarrow> r # resolutions cs w1)"

section \<open>The resolver as the specification words it\<close>

text \<open>
  For comparison with \<open>getCryptoByIdOrSymbol\<close> only. The specification's resolver
  normalises the identifier to lowercase and trims the whitespace around it, then takes
  the first asset whose id, or whose lowercased symbol, is the normalised identifier.
\<close>

definition spec_is_space :: "char \<Rightarrow> bool" where
  "spec_is_space c \<longleftrightarrow> (of_char c :: nat) \<in> {9, 10, 11, 12, 13, 32}"

definition spec_trim :: "string \<Rightarrow> string" where
  "spec_trim s = rev (dropWhile spec_is_space (rev (dropWhile spec_is_space s)))"

definition spec_resolve :: "string \<Rightarrow> CryptoPrice list \<Rightarrow> CryptoPrice option" where
  "spec_resolve identifier assets = find (matches (spec_trim (toLowerCase identifier))) assets"

section \<open>Concrete inputs\<close>

text \<open>Two rows of the market list, a user, a runtime, three networks and a family of
  initial states, for the instances of the theorems below.\<close>

definition bitcoin :: CryptoPrice where
  "bitcoin =
     \<lparr>coin_id = ''bitcoin'', coin_symbol = ''btc'', coin_name = ''Bitcoin'',
      current_price = 150, market_cap = 2000000, market_cap_rank = 1,
      price_change_percentage_24h = 2, price_change_percentage_7d = None,
      price_change_percentage_30d = None, high_24h = 155, low_24h = 145,
      last_updated = ''2025-01-01T00:00:00.000Z''\<rparr>"

definition ethereum :: CryptoPrice where
  "ethereum =
     \<lparr>coin_id = ''ethereum'', coin_symbol = ''eth'', coin_name = ''Ethereum'',
      current_price = 30, market_cap = 400000, market_cap_rank = 2,
      price_change_percentage_24h = -1, price_change_percentage_7d = None,
      price_change_percentage_30d = None, high_24h = 32, low_24h = 29,
      last_updated = ''2025-01-01T00:00:00.000Z''\<rparr>"

definition alice :: string where
  "alice = ''123e4567-e89b-12d3-a456-426614174000''"

definition the_runtime :: IAgentRuntime where
  "the_runtime = \<lparr>runtime_agentId = PORTFOLIO_AGENT\<rparr>"

text \<open>A network that always answers with the two rows, one that never answers, and one
  whose first call fails with status 429 and whose later calls answer.\<close>

definition net_up :: "nat \<Rightarrow> string \<Rightarrow> fetch_result" where
  "net_up k url =
     Resolved \<lparr>ok = True, status = 200, statusText = ''OK'', json = Inr (Markets [bitcoin, ethereum])\<rparr>"

definition net_down :: "nat \<Rightarrow> string \<Rightarrow> fetch_result" where
  "net_down k url = Rejected ''fetch failed''"

definition net_flaky :: "nat \<Rightarrow> string \<Rightarrow> fetch_result" where
  "net_flaky k url =
     (if k = 0
      then Resolved \<lparr>ok = False, status = 429, statusText = ''Too Many Requests'', json = Inl ''Unexpected token''\<rparr>
      else net_up k url)"

text \<open>The state of a fresh process: nothing cached, nothing stored, the clock reading
  \<open>100000 + step * k\<close> at its \<open>k\<close>-th reading.\<close>

definition fresh_world :: "(nat \<Rightarrow> string \<Rightarrow> fetch_result) \<Rightarrow> int \<Rightarrow> world" where
  "fresh_world n step =
     \<lparr>cache = Map.empty, memories = [], net = n, requests = [],
      clock = (\<lambda>k. 100000 + step * int k), clock_reads = 0,
      uuids = (\<lambda>k. ''00000000-0000-4000-8000-000000000000''), uuid_reads = 0\<rparr>"

text \<open>The state after \<open>alice\<close>'s first purchase in a fresh process: 1 bitcoin at 100.\<close>

definition after_first_purchase :: world where
  "after_first_purchase =
     snd (addToPortfolio the_runtime alice ''bitcoin'' 1 100 (fresh_world net_up 1000))"

definition markets100 :: string where
  "markets100 = markets_endpoint 100 ''usd''"

text \<open>A state whose cache holds the market list, fetched at time \<open>ts\<close>, with
  \<open>bitcoin\<close> alone.\<close>

definition cached_world :: "int \<Rightarrow> (nat \<Rightarrow> string \<Rightarrow> fetch_result) \<Rightarrow> int \<Rightarrow> world" where
  "cached_world ts n step =
     (fresh_world n step)\<lparr>cache := [markets100 \<mapsto> \<lparr>data = Markets [bitcoin], timestamp = ts\<rparr>]\<rparr>"

text \<open>A position bought at time 500, the memory that stores a list of positions for
  \<open>alice\<close>, and the state of a process that finds this memory in the table.\<close>

definition position :: "string \<Rightarrow> string \<Rightarrow> string \<Rightarrow> real \<Rightarrow> real \<Rightarrow> PortfolioItem" where
  "position c s n q p =
     \<lparr>coinId = c, symbol = s, name = n, quantity = q, purchasePrice = p, purchaseDate = 500\<rparr>"

definition stored :: "PortfolioItem list \<Rightarrow> Memory" where
  "stored its =
     \<lparr>mem_id = ''11111111-1111-4111-8111-111111111111'', mem_userId = PORTFOLIO_AGENT,
      roomId = alice, agentId = PORTFOLIO_AGENT,
      content = \<lparr>action = ''CRYPTO_PORTFOLIO'', userId = alice, items = its,
                 lastUpdated = 500, text_c = []\<rparr>,
      createdAt = 500, unique = True, embedding = None\<rparr>"

definition world_with :: "PortfolioItem list \<Rightarrow> (nat \<Rightarrow> string \<Rightarrow> fetch_result) \<Rightarrow> int \<Rightarrow> world" where
  "world_with its n step = (fresh_world n step)\<lparr>memories := [stored its]\<rparr>"

section \<open>The cache of the market data service\<close>

subsection \<open>One request\<close>

lemma apiRequest_hit:
  assumes "cache w endpoint = Some e" "clock w (clock_reads w) - timestamp e < CACHE_DURATION"
  shows "apiRequest endpoint w = (Inr (data e), w\<lparr>clock_reads := Suc (clock_reads w)\<rparr>)"
  using assms by (simp add: apiRequest_def Date_now_def)

lemma apiRequest_miss:
  assumes "cache w endpoint = None \<or> (cache w endpoint = Some e \<and> CACHE_DURATION \<le> clock w (clock_reads w) - timestamp e)"
  shows "apiRequest endpoint w =
    apiRequest_try (API_BASE_URL @ endpoint) endpoint (clock w (clock_reads w)) (w\<lparr>clock_reads := Suc (clock_reads w)\<rparr>)"
  using assms by (auto simp add: apiRequest_def Date_now_def)

lemma apiRequest_try_requests:
  "requests (snd (apiRequest_try url endpoint now w)) = requests w @ [url]"
  by (simp add: apiRequest_try_def fetch_def split: fetch_result.splits sum.splits)

lemma apiRequest_try_ok:
  assumes "net w (length (requests w)) url = Resolved resp" "ok resp" "json resp = Inr d"
  shows "apiRequest_try url endpoint now w =
     (Inr d, w\<lparr>requests := requests w @ [url], cache := (cache w)(endpoint \<mapsto> \<lparr>data = d, timestamp = now\<rparr>)\<rparr>)"
  using assms by (simp add: apiRequest_try_def fetch_def)

lemma apiRequest_try_Inr:
  assumes "fst (apiRequest_try url endpoint now w) = Inr d"
  shows "apiRequest_try url endpoint now w =
     (Inr d, w\<lparr>requests := requests w @ [url], cache := (cache w)(endpoint \<mapsto> \<lparr>data = d, timestamp = now\<rparr>)\<rparr>)"
  using assms by (auto simp add: apiRequest_try_def fetch_def split: fetch_result.splits sum.splits if_splits)

lemma apiRequest_try_fail:
  assumes "net w (length (requests w)) url = Rejected msg
     \<or> (net w (length (requests w)) url = Resolved resp \<and> (\<not> ok resp \<or> json resp = Inl msg))"
  shows "\<exists>err. apiRequest_try url endpoint now w = (Inl err, w\<lparr>requests := requests w @ [url]\<rparr>)"
  using assms by (auto simp add: apiRequest_try_def fetch_def split: fetch_result.splits sum.splits if_splits)

subsection \<open>Freshness\<close>

text \<open>
  Claim C3. The time to live is 60000 milliseconds. A request whose cache entry is younger
  than that returns the cached payload; the state changes in nothing but the count of
  clock readings, so no external call is made and the cache is as it was. A request
  with no entry, or with an entry as old as the time to live or older, makes exactly
  one external call, to the base URL followed by the endpoint; when the network answers
  with a success status and a body that parses, that body is the result, and a result
  is stored under the endpoint with the time read at the start of the request. A second
  request for the same endpoint, made while the clock is less than the time to live past
  that reading, returns the same payload and makes no further call: the two requests
  make one external call together.
\<close>

theorem apiRequest_cache_freshness:
  "CACHE_DURATION = 60000 \<and>
   (cache w endpoint = Some e \<and> clock w (clock_reads w) - timestamp e < CACHE_DURATION \<longrightarrow>
      apiRequest endpoint w = (Inr (data e), w\<lparr>clock_reads := Suc (clock_reads w)\<rparr>)) \<and>
   (cache w endpoint = None \<or>
      cache w endpoint = Some e \<and> CACHE_DURATION \<le> clock w (clock_reads w) - timestamp e \<longrightarrow>
      requests (snd (apiRequest endpoint w)) = requests w @ [API_BASE_URL @ endpoint] \<and>
      (net w (length (requests w)) (API_BASE_URL @ endpoint) = Resolved resp \<and> ok resp \<and> json resp = Inr d \<longrightarrow>
         fst (apiRequest endpoint w) = Inr d) \<and>
      (fst (apiRequest endpoint w) = Inr d \<longrightarrow>
         cache (snd (apiRequest endpoint w)) =
           (cache w)(endpoint \<mapsto> \<lparr>data = d, timestamp = clock w (clock_reads w)\<rparr>) \<and>
         (clock w (Suc (clock_reads w)) - clock w (clock_reads w) < CACHE_DURATION \<longrightarrow>
            fst (apiRequest endpoint (snd (apiRequest endpoint w))) = Inr d \<and>
            requests (snd (apiRequest endpoint (snd (apiRequest endpoint w)))) =
              requests w @ [API_BASE_URL @ endpoint])))"
proof (intro conjI impI)
  show "CACHE_DURATION = 60000" by (simp add: CACHE_DURATION_def)
next
  assume "cache w endpoint = Some e \<and> clock w (clock_reads w) - timestamp e < CACHE_DURATION"
  then show "apiRequest endpoint w = (Inr (data e), w\<lparr>clock_reads := Suc (clock_reads w)\<rparr>)"
    by (simp add: apiRequest_hit)
next
  assume miss: "cache w endpoint = None \<or>
      cache w endpoint = Some e \<and> CACHE_DURATION \<le> clock w (clock_reads w) - timestamp e"
  let ?now = "clock w (clock_reads w)"
  let ?w1 = "w\<lparr>clock_reads := Suc (clock_reads w)\<rparr>"
  let ?url = "API_BASE_URL @ endpoint"
  have eq: "apiRequest endpoint w = apiRequest_try ?url endpoint ?now ?w1"
    using miss by (rule apiRequest_miss)
  show "requests (snd (apiRequest endpoint w)) = requests w @ [?url]"
    by (simp add: eq apiRequest_try_requests)
  {
    assume "net w (length (requests w)) ?url = Resolved resp \<and> ok resp \<and> json resp = Inr d"
    then show "fst (apiRequest endpoint w) = Inr d"
      by (simp add: eq apiRequest_try_ok)
  }
  {
    assume "fst (apiRequest endpoint w) = Inr d"
    then have "fst (apiRequest_try ?url endpoint ?now ?w1) = Inr d" by (simp add: eq)
    then have full: "apiRequest endpoint w =
        (Inr d, ?w1\<lparr>requests := requests ?w1 @ [?url],
                   cache := (cache ?w1)(endpoint \<mapsto> \<lparr>data = d, timestamp = ?now\<rparr>)\<rparr>)"
      unfolding eq by (rule apiRequest_try_Inr)
    then show "cache (snd (apiRequest endpoint w)) = (cache w)(endpoint \<mapsto> \<lparr>data = d, timestamp = ?now\<rparr>)"
      by simp
    assume "clock w (Suc (clock_reads w)) - ?now < CACHE_DURATION"
    then show "fst (apiRequest endpoint (snd (apiRequest endpoint w))) = Inr d"
      and "requests (snd (apiRequest endpoint (snd (apiRequest endpoint w)))) = requests w @ [?url]"
      by (simp_all add: full apiRequest_hit)
  }
qed

theorem apiRequest_cache_freshness_witness:
  "fst (apiRequest markets100 (fresh_world net_up 1000)) = Inr (Markets [bitcoin, ethereum]) \<and>
   requests (snd (apiRequest markets100 (snd (apiRequest markets100 (fresh_world net_up 1000)))))
     = [API_BASE_URL @ markets100] \<and>
   apiRequest markets100 (cached_world 99000 net_down 1000)
     = (Inr (Markets [bitcoin]), (cached_world 99000 net_down 1000)\<lparr>clock_reads := 1\<rparr>) \<and>
   requests (snd (apiRequest markets100 (cached_world 30000 net_up 1000))) = [API_BASE_URL @ markets100] \<and>
   cache (snd (apiRequest markets100 (cached_world 30000 net_up 1000))) markets100
     = Some \<lparr>data = Markets [bitcoin, ethereum], timestamp = 100000\<rparr>"
proof -
  let ?r = "\<lparr>ok = True, status = 200, statusText = ''OK'', json = Inr (Markets [bitcoin, ethereum])\<rparr>"
  let ?e = "\<lparr>data = Markets [bitcoin], timestamp = 99000\<rparr>"
  let ?s = "\<lparr>data = Markets [bitcoin], timestamp = 30000\<rparr>"
  have a: "cache (fresh_world net_up 1000) markets100 = None"
    by (simp add: fresh_world_def)
  have b: "net (fresh_world net_up 1000) (length (requests (fresh_world net_up 1000))) (API_BASE_URL @ markets100) = Resolved ?r
      \<and> ok ?r \<and> json ?r = Inr (Markets [bitcoin, ethereum])"
    by (simp add: fresh_world_def net_up_def)
  have c: "clock (fresh_world net_up 1000) (Suc (clock_reads (fresh_world net_up 1000)))
      - clock (fresh_world net_up 1000) (clock_reads (fresh_world net_up 1000)) < CACHE_DURATION"
    by (simp add: fresh_world_def CACHE_DURATION_def)
  have d: "cache (cached_world 99000 net_down 1000) markets100 = Some ?e \<and>
      clock (cached_world 99000 net_down 1000) (clock_reads (cached_world 99000 net_down 1000)) - timestamp ?e < CACHE_DURATION"
    by (simp add: cached_world_def fresh_world_def CACHE_DURATION_def)
  have e: "cache (cached_world 30000 net_up 1000) markets100 = Some ?s \<and>
      CACHE_DURATION \<le> clock (cached_world 30000 net_up 1000) (clock_reads (cached_world 30000 net_up 1000)) - timestamp ?s"
    by (simp add: cached_world_def fresh_world_def CACHE_DURATION_def)
  have f: "net (cached_world 30000 net_up 1000) (length (requests (cached_world 30000 net_up 1000))) (API_BASE_URL @ markets100) = Resolved ?r
      \<and> ok ?r \<and> json ?r = Inr (Markets [bitcoin, ethereum])"
    by (simp add: cached_world_def fresh_world_def net_up_def)
  have g: "requests (fresh_world net_up 1000) = [] \<and> requests (cached_world 30000 net_up 1000) = []
     \<and> clock_reads (cached_world 99000 net_down 1000) = 0
     \<and> clock (cached_world 30000 net_up 1000) (clock_reads (cached_world 30000 net_up 1000)) = 100000"
    by (simp add: cached_world_def fresh_world_def)
  show ?thesis
    using apiRequest_cache_freshness [of "fresh_world net_up 1000" markets100 ?e ?r "Markets [bitcoin, ethereum]"]
      apiRequest_cache_freshness [of "cached_world 99000 net_down 1000" markets100 ?e]
      apiRequest_cache_freshness [of "cached_world 30000 net_up 1000" markets100 ?s ?r "Markets [bitcoin, ethereum]"]
      a b c d e f g
    by simp
qed

subsection \<open>A failed external call\<close>

text \<open>
  Claim C5. When a request has to go to the network (no entry, or a stale one) and the
  external call fails, because the promise rejects, the status is not a success or the
  body does not parse, the request ends in an error and the cache is what it was before
  the request: a stale entry under the endpoint is neither removed nor changed.
\<close>

theorem apiRequest_failure_keeps_cache:
  "(cache w endpoint = None \<or>
      cache w endpoint = Some e \<and> CACHE_DURATION \<le> clock w (clock_reads w) - timestamp e) \<and>
   (net w (length (requests w)) (API_BASE_URL @ endpoint) = Rejected msg \<or>
      net w (length (requests w)) (API_BASE_URL @ endpoint) = Resolved resp \<and>
        (\<not> ok resp \<or> json resp = Inl msg)) \<longrightarrow>
   (\<exists>err. fst (apiRequest endpoint w) = Inl err) \<and>
   cache (snd (apiRequest endpoint w)) = cache w"
proof (intro impI, elim conjE)
  assume miss: "cache w endpoint = None \<or>
      cache w endpoint = Some e \<and> CACHE_DURATION \<le> clock w (clock_reads w) - timestamp e"
  assume bad: "net w (length (requests w)) (API_BASE_URL @ endpoint) = Rejected msg \<or>
      net w (length (requests w)) (API_BASE_URL @ endpoint) = Resolved resp \<and>
        (\<not> ok resp \<or> json resp = Inl msg)"
  let ?w1 = "w\<lparr>clock_reads := Suc (clock_reads w)\<rparr>"
  have eq: "apiRequest endpoint w =
      apiRequest_try (API_BASE_URL @ endpoint) endpoint (clock w (clock_reads w)) ?w1"
    using miss by (rule apiRequest_miss)
  from bad have "net ?w1 (length (requests ?w1)) (API_BASE_URL @ endpoint) = Rejected msg \<or>
      net ?w1 (length (requests ?w1)) (API_BASE_URL @ endpoint) = Resolved resp \<and>
        (\<not> ok resp \<or> json resp = Inl msg)"
    by simp
  from apiRequest_try_fail [OF this]
  obtain err where "apiRequest_try (API_BASE_URL @ endpoint) endpoint (clock w (clock_reads w)) ?w1
      = (Inl err, ?w1\<lparr>requests := requests ?w1 @ [API_BASE_URL @ endpoint]\<rparr>)"
    by blast
  then show "(\<exists>err. fst (apiRequest endpoint w) = Inl err) \<and>
      cache (snd (apiRequest endpoint w)) = cache w"
    by (simp add: eq)
qed

theorem apiRequest_failure_keeps_cache_witness:
  "(\<exists>err. fst (apiRequest markets100 (cached_world 30000 net_down 1000)) = Inl err) \<and>
   cache (snd (apiRequest markets100 (cached_world 30000 net_down 1000))) markets100
     = Some \<lparr>data = Markets [bitcoin], timestamp = 30000\<rparr> \<and>
   (\<exists>err. fst (apiRequest markets100 (cached_world 30000 net_flaky 1000)) = Inl err) \<and>
   cache (snd (apiRequest markets100 (cached_world 30000 net_flaky 1000))) markets100
     = Some \<lparr>data = Markets [bitcoin], timestamp = 30000\<rparr>"
proof -
  let ?s = "\<lparr>data = Markets [bitcoin], timestamp = 30000\<rparr>"
  let ?r = "\<lparr>ok = False, status = 429, statusText = ''Too Many Requests'', json = Inl ''Unexpected token''\<rparr>"
  have a: "cache (cached_world 30000 net_down 1000) markets100 = Some ?s \<and>
      CACHE_DURATION \<le> clock (cached_world 30000 net_down 1000) (clock_reads (cached_world 30000 net_down 1000)) - timestamp ?s"
    by (simp add: cached_world_def fresh_world_def CACHE_DURATION_def)
  have b: "net (cached_world 30000 net_down 1000) (length (requests (cached_world 30000 net_down 1000)))
      (API_BASE_URL @ markets100) = Rejected ''fetch failed''"
    by (simp add: cached_world_def fresh_world_def net_down_def)
  have c: "cache (cached_world 30000 net_flaky 1000) markets100 = Some ?s \<and>
      CACHE_DURATION \<le> clock (cached_world 30000 net_flaky 1000) (clock_reads (cached_world 30000 net_flaky 1000)) - timestamp ?s"
    by (simp add: cached_world_def fresh_world_def CACHE_DURATION_def)
  have d: "net (cached_world 30000 net_flaky 1000) (length (requests (cached_world 30000 net_flaky 1000)))
      (API_BASE_URL @ markets100) = Resolved ?r \<and> \<not> ok ?r"
    by (simp add: cached_world_def fresh_world_def net_flaky_def)
  show ?thesis
    using apiRequest_failure_keeps_cache [of "cached_world 30000 net_down 1000" markets100 ?s "''fetch failed''"]
      apiRequest_failure_keeps_cache [of "cached_world 30000 net_flaky 1000" markets100 ?s _ ?r]
      a b c d
    by simp
qed

section \<open>The resolver\<close>

subsection \<open>What a request and a resolution leave alone\<close>

lemma apiRequest_try_frame:
  "memories (snd (apiRequest_try url endpoint now w)) = memories w \<and>
   uuid_reads (snd (apiRequest_try url endpoint now w)) = uuid_reads w \<and>
   uuids (snd (apiRequest_try url endpoint now w)) = uuids w \<and>
   clock (snd (apiRequest_try url endpoint now w)) = clock w \<and>
   clock_reads (snd (apiRequest_try url endpoint now w)) = clock_reads w \<and>
   net (snd (apiRequest_try url endpoint now w)) = net w"
  by (simp add: apiRequest_try_def fetch_def split: fetch_result.splits sum.splits)

lemma apiRequest_frame:
  "memories (snd (apiRequest endpoint w)) = memories w \<and>
   uuid_reads (snd (apiRequest endpoint w)) = uuid_reads w \<and>
   uuids (snd (apiRequest endpoint w)) = uuids w \<and>
   clock (snd (apiRequest endpoint w)) = clock w \<and>
   clock_reads (snd (apiRequest endpoint w)) = Suc (clock_reads w) \<and>
   net (snd (apiRequest endpoint w)) = net w"
  by (simp add: apiRequest_def Date_now_def apiRequest_try_frame Let_def split: option.splits)

lemma getCryptoByIdOrSymbol_state:
  "snd (getCryptoByIdOrSymbol idOrSymbol currency w) = snd (getTopCryptos 100 currency w)"
  by (simp add: getCryptoByIdOrSymbol_def split: prod.splits sum.splits payload.splits)

lemma getCryptoByIdOrSymbol_result:
  "fst (getCryptoByIdOrSymbol idOrSymbol currency w) =
     (case fst (getTopCryptos 100 currency w) of
        Inl e \<Rightarrow> None
      | Inr OtherJson \<Rightarrow> None
      | Inr (Markets topCoins) \<Rightarrow> find (matches (toLowerCase idOrSymbol)) topCoins)"
  by (simp add: getCryptoByIdOrSymbol_def split: prod.splits sum.splits payload.splits)

lemma getCryptoByIdOrSymbol_frame:
  "memories (snd (getCryptoByIdOrSymbol idOrSymbol currency w)) = memories w \<and>
   uuid_reads (snd (getCryptoByIdOrSymbol idOrSymbol currency w)) = uuid_reads w \<and>
   uuids (snd (getCryptoByIdOrSymbol idOrSymbol currency w)) = uuids w \<and>
   clock (snd (getCryptoByIdOrSymbol idOrSymbol currency w)) = clock w \<and>
   clock_reads (snd (getCryptoByIdOrSymbol idOrSymbol currency w)) = Suc (clock_reads w) \<and>
   net (snd (getCryptoByIdOrSymbol idOrSymbol currency w)) = net w"
  by (simp add: getCryptoByIdOrSymbol_state getTopCryptos_def apiRequest_frame)

subsection \<open>Exact matching\<close>

text \<open>
  Claim C4, as the code has it. The resolver asks \<open>apiRequest\<close>, and so the cache, for the
  market list with \<open>per_page=100\<close>, and changes the state only as that request does. It
  lowercases the identifier and does nothing else to it: when the request yields the
  rows \<open>topCoins\<close>, the result is the first row whose id is the lowercased identifier or
  whose lowercased symbol is; every row before it matches neither way, and the result is
  \<open>null\<close> exactly when no row matches. There is no second source of assets.
\<close>

theorem getCryptoByIdOrSymbol_exact_match:
  "getTopCryptos 100 currency w =
     apiRequest (''/coins/markets?vs_currency='' @ currency @
       ''&order=market_cap_desc&per_page=100&page=1&sparkline=false'') w \<and>
   snd (getCryptoByIdOrSymbol identifier currency w) = snd (getTopCryptos 100 currency w) \<and>
   (fst (getTopCryptos 100 currency w) = Inr (Markets topCoins) \<longrightarrow>
      fst (getCryptoByIdOrSymbol identifier currency w)
        = find (\<lambda>c. coin_id c = toLowerCase identifier \<or>
                     toLowerCase (coin_symbol c) = toLowerCase identifier) topCoins \<and>
      (case fst (getCryptoByIdOrSymbol identifier currency w) of
         None \<Rightarrow> \<forall>c \<in> set topCoins. coin_id c \<noteq> toLowerCase identifier \<and>
                    toLowerCase (coin_symbol c) \<noteq> toLowerCase identifier
       | Some c \<Rightarrow> \<exists>i < length topCoins. topCoins ! i = c \<and>
                    (coin_id c = toLowerCase identifier \<or>
                     toLowerCase (coin_symbol c) = toLowerCase identifier) \<and>
                    (\<forall>j < i. coin_id (topCoins ! j) \<noteq> toLowerCase identifier \<and>
                       toLowerCase (coin_symbol (topCoins ! j)) \<noteq> toLowerCase identifier)))"
proof (intro conjI impI)
  have "string_of_nat 100 = ''100''"
    by code_simp
  then show "getTopCryptos 100 currency w =
     apiRequest (''/coins/markets?vs_currency='' @ currency @
       ''&order=market_cap_desc&per_page=100&page=1&sparkline=false'') w"
    by (simp add: getTopCryptos_def markets_endpoint_def)
next
  show "snd (getCryptoByIdOrSymbol identifier currency w) = snd (getTopCryptos 100 currency w)"
    by (rule getCryptoByIdOrSymbol_state)
next
  assume top: "fst (getTopCryptos 100 currency w) = Inr (Markets topCoins)"
  let ?P = "\<lambda>c. coin_id c = toLowerCase identifier \<or> toLowerCase (coin_symbol c) = toLowerCase identifier"
  have m: "matches (toLowerCase identifier) = ?P"
    by (rule ext) (simp add: matches_def)
  show r: "fst (getCryptoByIdOrSymbol identifier currency w) = find ?P topCoins"
    by (simp add: getCryptoByIdOrSymbol_result top m)
  show "case fst (getCryptoByIdOrSymbol identifier currency w) of
         None \<Rightarrow> \<forall>c \<in> set topCoins. coin_id c \<noteq> toLowerCase identifier \<and>
                    toLowerCase (coin_symbol c) \<noteq> toLowerCase identifier
       | Some c \<Rightarrow> \<exists>i < length topCoins. topCoins ! i = c \<and>
                    (coin_id c = toLowerCase identifier \<or>
                     toLowerCase (coin_symbol c) = toLowerCase identifier) \<and>
                    (\<forall>j < i. coin_id (topCoins ! j) \<noteq> toLowerCase identifier \<and>
                       toLowerCase (coin_symbol (topCoins ! j)) \<noteq> toLowerCase identifier)"
  proof (cases "find ?P topCoins")
    case None
    then have "\<forall>c \<in> set topCoins. \<not> ?P c"
      by (simp add: find_None_iff)
    then show ?thesis
      by (simp add: r None)
  next
    case (Some c)
    then obtain i where "i < length topCoins" "?P (topCoins ! i)" "c = topCoins ! i"
        "\<forall>j < i. \<not> ?P (topCoins ! j)"
      by (auto simp add: find_Some_iff)
    then have "\<exists>i < length topCoins. topCoins ! i = c \<and> ?P c \<and> (\<forall>j < i. \<not> ?P (topCoins ! j))"
      by blast
    then show ?thesis
      by (simp add: r Some)
  qed
qed

theorem getCryptoByIdOrSymbol_exact_match_witness:
  "fst (getCryptoByIdOrSymbol ''BTC'' ''usd'' (fresh_world net_up 1000)) = Some bitcoin \<and>
   fst (getCryptoByIdOrSymbol ''Ethereum'' ''usd'' (fresh_world net_up 1000)) = Some ethereum \<and>
   fst (getCryptoByIdOrSymbol ''bit'' ''usd'' (fresh_world net_up 1000)) = None"
proof -
  have top: "fst (getTopCryptos 100 ''usd'' (fresh_world net_up 1000)) = Inr (Markets [bitcoin, ethereum])"
    by code_simp
  have a: "find (\<lambda>c. coin_id c = toLowerCase ''BTC'' \<or> toLowerCase (coin_symbol c) = toLowerCase ''BTC'')
      [bitcoin, ethereum] = Some bitcoin"
    by code_simp
  have b: "find (\<lambda>c. coin_id c = toLowerCase ''Ethereum'' \<or> toLowerCase (coin_symbol c) = toLowerCase ''Ethereum'')
      [bitcoin, ethereum] = Some ethereum"
    by code_simp
  have c: "find (\<lambda>c. coin_id c = toLowerCase ''bit'' \<or> toLowerCase (coin_symbol c) = toLowerCase ''bit'')
      [bitcoin, ethereum] = None"
    by code_simp
  show ?thesis
    using getCryptoByIdOrSymbol_exact_match [of "''usd''" "fresh_world net_up 1000" "''BTC''" "[bitcoin, ethereum]"]
      getCryptoByIdOrSymbol_exact_match [of "''usd''" "fresh_world net_up 1000" "''Ethereum''" "[bitcoin, ethereum]"]
      getCryptoByIdOrSymbol_exact_match [of "''usd''" "fresh_world net_up 1000" "''bit''" "[bitcoin, ethereum]"]
      top a b c
    by simp
qed

text \<open>
  Claim C4 as stated has the resolver trim the identifier. It does not: with \<open>bitcoin\<close> in
  the list, the identifier \<open>Bitcoin\<close> with a space on each side resolves to \<open>bitcoin\<close> as
  the specification words it, and to \<open>null\<close> in the code.
\<close>

theorem getCryptoByIdOrSymbol_trim_counterexample:
  "fst (getTopCryptos 100 ''usd'' (fresh_world net_up 1000)) = Inr (Markets [bitcoin, ethereum]) \<and>
   spec_resolve '' Bitcoin '' [bitcoin, ethereum] = Some bitcoin \<and>
   fst (getCryptoByIdOrSymbol '' Bitcoin '' ''usd'' (fresh_world net_up 1000)) = None"
  by code_simp

section \<open>The merge\<close>

lemma addToPortfolio_unresolved:
  assumes "fst (getCryptoByIdOrSymbol cid ''usd'' w) = None"
  shows "addToPortfolio runtime uid cid qty price w = (None, snd (getCryptoByIdOrSymbol cid ''usd'' w))"
  using assms by (cases "getCryptoByIdOrSymbol cid ''usd'' w") (simp add: addToPortfolio_def)

subsection \<open>An asset that does not resolve\<close>

text \<open>
  Claim C8. When the resolver returns \<open>null\<close> for the asset of a purchase, \<open>addToPortfolio\<close>
  returns \<open>null\<close> and the state after it is the state the resolver left: the table of
  memories is what it was, nothing was read from it or written to it, and no identifier
  was drawn.
\<close>

theorem addToPortfolio_unknown_asset:
  "fst (getCryptoByIdOrSymbol cid ''usd'' w) = None \<longrightarrow>
     fst (addToPortfolio runtime uid cid qty price w) = None \<and>
     snd (addToPortfolio runtime uid cid qty price w) = snd (getCryptoByIdOrSymbol cid ''usd'' w) \<and>
     memories (snd (addToPortfolio runtime uid cid qty price w)) = memories w \<and>
     uuid_reads (snd (addToPortfolio runtime uid cid qty price w)) = uuid_reads w"
  by (simp add: addToPortfolio_unresolved getCryptoByIdOrSymbol_frame)

theorem addToPortfolio_unknown_asset_witness:
  "fst (addToPortfolio the_runtime alice ''dogecoin'' 5 2
          (world_with [position ''bitcoin'' ''BTC'' ''Bitcoin'' 1 100] net_up 1000)) = None \<and>
   memories (snd (addToPortfolio the_runtime alice ''dogecoin'' 5 2
          (world_with [position ''bitcoin'' ''BTC'' ''Bitcoin'' 1 100] net_up 1000)))
     = [stored [position ''bitcoin'' ''BTC'' ''Bitcoin'' 1 100]]"
proof -
  let ?w = "world_with [position ''bitcoin'' ''BTC'' ''Bitcoin'' 1 100] net_up 1000"
  have a: "fst (getCryptoByIdOrSymbol ''dogecoin'' ''usd'' ?w) = None"
    by code_simp
  have b: "memories ?w = [stored [position ''bitcoin'' ''BTC'' ''Bitcoin'' 1 100]]"
    by (simp add: world_with_def)
  show ?thesis
    using addToPortfolio_unknown_asset [of "''dogecoin''" ?w the_runtime alice 5 2] a b
    by (simp add: getCryptoByIdOrSymbol_frame)
qed

subsection \<open>An outage and an unknown asset look the same\<close>

text \<open>
  Claim C10. The resolver has no error result: a failed request and a payload that is
  not a list both give \<open>null\<close>, as a list without a match does. So when a request has to
  go to the network and the external call fails, the resolver returns \<open>null\<close> and
  \<open>addToPortfolio\<close> returns \<open>null\<close> with the memories unchanged; and when the list arrives
  and no row matches the identifier, the resolver and \<open>addToPortfolio\<close> return the same
  \<open>null\<close>, with the memories unchanged.
\<close>

theorem resolver_outage_is_unknown_asset:
  "fst (getCryptoByIdOrSymbol cid ''usd'' w) =
     (case fst (getTopCryptos 100 ''usd'' w) of
        Inl e \<Rightarrow> None
      | Inr OtherJson \<Rightarrow> None
      | Inr (Markets topCoins) \<Rightarrow> find (matches (toLowerCase cid)) topCoins) \<and>
   ((cache w (markets_endpoint 100 ''usd'') = None \<or>
       cache w (markets_endpoint 100 ''usd'') = Some e \<and>
         CACHE_DURATION \<le> clock w (clock_reads w) - timestamp e) \<and>
    (net w (length (requests w)) (API_BASE_URL @ markets_endpoint 100 ''usd'') = Rejected msg \<or>
       net w (length (requests w)) (API_BASE_URL @ markets_endpoint 100 ''usd'') = Resolved resp \<and>
         (\<not> ok resp \<or> json resp = Inl msg)) \<longrightarrow>
      fst (getCryptoByIdOrSymbol cid ''usd'' w) = None \<and>
      fst (addToPortfolio runtime uid cid qty price w) = None \<and>
      memories (snd (addToPortfolio runtime uid cid qty price w)) = memories w) \<and>
   (fst (getTopCryptos 100 ''usd'' w) = Inr (Markets topCoins) \<and>
    (\<forall>c \<in> set topCoins. \<not> matches (toLowerCase cid) c) \<longrightarrow>
      fst (getCryptoByIdOrSymbol cid ''usd'' w) = None \<and>
      fst (addToPortfolio runtime uid cid qty price w) = None \<and>
      memories (snd (addToPortfolio runtime uid cid qty price w)) = memories w)"
proof (intro conjI impI)
  show "fst (getCryptoByIdOrSymbol cid ''usd'' w) =
     (case fst (getTopCryptos 100 ''usd'' w) of
        Inl e \<Rightarrow> None
      | Inr OtherJson \<Rightarrow> None
      | Inr (Markets topCoins) \<Rightarrow> find (matches (toLowerCase cid)) topCoins)"
    by (rule getCryptoByIdOrSymbol_result)
next
  let ?ep = "markets_endpoint 100 ''usd''"
  let ?w1 = "w\<lparr>clock_reads := Suc (clock_reads w)\<rparr>"
  assume h: "(cache w ?ep = None \<or>
       cache w ?ep = Some e \<and> CACHE_DURATION \<le> clock w (clock_reads w) - timestamp e) \<and>
    (net w (length (requests w)) (API_BASE_URL @ ?ep) = Rejected msg \<or>
       net w (length (requests w)) (API_BASE_URL @ ?ep) = Resolved resp \<and>
         (\<not> ok resp \<or> json resp = Inl msg))"
  then have eq: "apiRequest ?ep w = apiRequest_try (API_BASE_URL @ ?ep) ?ep (clock w (clock_reads w)) ?w1"
    using apiRequest_miss [of w ?ep e] by blast
  from h have "net ?w1 (length (requests ?w1)) (API_BASE_URL @ ?ep) = Rejected msg \<or>
      net ?w1 (length (requests ?w1)) (API_BASE_URL @ ?ep) = Resolved resp \<and>
        (\<not> ok resp \<or> json resp = Inl msg)"
    by simp
  from apiRequest_try_fail [OF this, of ?ep "clock w (clock_reads w)"]
  obtain err where "fst (apiRequest_try (API_BASE_URL @ ?ep) ?ep (clock w (clock_reads w)) ?w1) = Inl err"
    by fastforce
  then have "fst (getTopCryptos 100 ''usd'' w) = Inl err"
    by (simp add: getTopCryptos_def eq)
  then show none: "fst (getCryptoByIdOrSymbol cid ''usd'' w) = None"
    by (simp add: getCryptoByIdOrSymbol_result)
  then show "fst (addToPortfolio runtime uid cid qty price w) = None"
    and "memories (snd (addToPortfolio runtime uid cid qty price w)) = memories w"
    by (simp_all add: addToPortfolio_unresolved getCryptoByIdOrSymbol_frame)
next
  assume h: "fst (getTopCryptos 100 ''usd'' w) = Inr (Markets topCoins) \<and>
    (\<forall>c \<in> set topCoins. \<not> matches (toLowerCase cid) c)"
  then have "find (matches (toLowerCase cid)) topCoins = None"
    by (simp add: find_None_iff)
  with h show none: "fst (getCryptoByIdOrSymbol cid ''usd'' w) = None"
    by (simp add: getCryptoByIdOrSymbol_result)
  then show "fst (addToPortfolio runtime uid cid qty price w) = None"
    and "memories (snd (addToPortfolio runtime uid cid qty price w)) = memories w"
    by (simp_all add: addToPortfolio_unresolved getCryptoByIdOrSymbol_frame)
qed

theorem resolver_outage_is_unknown_asset_witness:
  "fst (getCryptoByIdOrSymbol ''bitcoin'' ''usd'' (fresh_world net_down 1000)) = None \<and>
   fst (addToPortfolio the_runtime alice ''bitcoin'' 1 100 (fresh_world net_down 1000)) = None \<and>
   fst (getCryptoByIdOrSymbol ''dogecoin'' ''usd'' (fresh_world net_up 1000)) = None \<and>
   fst (addToPortfolio the_runtime alice ''dogecoin'' 1 100 (fresh_world net_up 1000)) = None"
proof -
  have a: "cache (fresh_world net_down 1000) (markets_endpoint 100 ''usd'') = None"
    by (simp add: fresh_world_def)
  have b: "net (fresh_world net_down 1000) (length (requests (fresh_world net_down 1000)))
      (API_BASE_URL @ markets_endpoint 100 ''usd'') = Rejected ''fetch failed''"
    by (simp add: fresh_world_def net_down_def)
  have c: "fst (getTopCryptos 100 ''usd'' (fresh_world net_up 1000)) = Inr (Markets [bitcoin, ethereum])"
    by code_simp
  have d: "\<forall>c \<in> set [bitcoin, ethereum]. \<not> matches (toLowerCase ''dogecoin'') c"
    by code_simp
  note down = resolver_outage_is_unknown_asset
      [where w = "fresh_world net_down 1000" and cid = "''bitcoin''" and msg = "''fetch failed''"
         and runtime = the_runtime and uid = alice and qty = 1 and price = 100]
  note unknown = resolver_outage_is_unknown_asset
      [where w = "fresh_world net_up 1000" and cid = "''dogecoin''" and topCoins = "[bitcoin, ethereum]"
         and runtime = the_runtime and uid = alice and qty = 1 and price = 100]
  from down a b
  have "fst (getCryptoByIdOrSymbol ''bitcoin'' ''usd'' (fresh_world net_down 1000)) = None \<and>
      fst (addToPortfolio the_runtime alice ''bitcoin'' 1 100 (fresh_world net_down 1000)) = None"
    by blast
  moreover from unknown c d
  have "fst (getCryptoByIdOrSymbol ''dogecoin'' ''usd'' (fresh_world net_up 1000)) = None \<and>
      fst (addToPortfolio the_runtime alice ''dogecoin'' 1 100 (fresh_world net_up 1000)) = None"
    by blast
  ultimately show ?thesis
    by simp
qed

subsection \<open>A purchase with a quantity or a price that is not positive\<close>

text \<open>
  Claim C1 as stated has \<open>addToPortfolio\<close> reject such a purchase. It has no check: for a
  user with no stored portfolio, a purchase of quantity 0 at price 50 of an asset that
  resolves is returned as a position and written to the memories.
\<close>

theorem addToPortfolio_no_validation_counterexample:
  "memories (fresh_world net_up 1000) = [] \<and>
   fst (addToPortfolio the_runtime alice ''bitcoin'' 0 50 (fresh_world net_up 1000))
     = Some \<lparr>coinId = ''bitcoin'', symbol = ''BTC'', name = ''Bitcoin'', quantity = 0,
             purchasePrice = 50, purchaseDate = 101000\<rparr> \<and>
   map (items \<circ> content)
     (memories (snd (addToPortfolio the_runtime alice ''bitcoin'' 0 50 (fresh_world net_up 1000))))
     = [[\<lparr>coinId = ''bitcoin'', symbol = ''BTC'', name = ''Bitcoin'', quantity = 0,
          purchasePrice = 50, purchaseDate = 101000\<rparr>]]"
  by code_simp

text \<open>
  Claim C1, as the code has it. The check is the caller's: when the quantity or the price
  that \<open>extractCoinPurchaseData\<close> scans from the message is zero or negative, it returns
  \<open>null\<close>; the handler of \<open>ADD_TO_PORTFOLIO\<close> then asks for the details of the purchase
  and does not call \<open>addToPortfolio\<close>, so the state, and with it the stored portfolio, is
  unchanged.
\<close>

theorem invalid_purchase_stopped_by_extraction:
  "scanQuantity (toLowerCase input) \<le> 0 \<or> scanPrice (toLowerCase input) \<le> 0 \<longrightarrow>
     extractCoinPurchaseData scanQuantity scanPrice input = None \<and>
     addToPortfolio_handler scanQuantity scanPrice runtime uid input w = (NeedDetails, w)"
  by (auto simp add: extractCoinPurchaseData_def addToPortfolio_handler_def Let_def)

theorem invalid_purchase_stopped_by_extraction_witness:
  "addToPortfolio_handler (\<lambda>t. 0) (\<lambda>t. 50) the_runtime alice ''I bought 0 BTC at $50''
     (fresh_world net_up 1000) = (NeedDetails, fresh_world net_up 1000) \<and>
   addToPortfolio_handler (\<lambda>t. 2) (\<lambda>t. 0) the_runtime alice ''I bought 2 BTC at $0''
     (fresh_world net_up 1000) = (NeedDetails, fresh_world net_up 1000)"
  using invalid_purchase_stopped_by_extraction
      [of "\<lambda>t. 0" "''I bought 0 BTC at $50''" "\<lambda>t. 50" the_runtime alice "fresh_world net_up 1000"]
    invalid_purchase_stopped_by_extraction
      [of "\<lambda>t. 2" "''I bought 2 BTC at $0''" "\<lambda>t. 0" the_runtime alice "fresh_world net_up 1000"]
  by simp

section \<open>The valuation\<close>

subsection \<open>The two loops\<close>

lemma truncate_unpriced:
  "PortfolioItem.truncate (unpriced item) = item"
  "PortfolioItem.truncate ((unpriced item)\<lparr>currentPrice := a, priceChange24h := b\<rparr>) = item"
  by (simp_all add: unpriced_def PortfolioItem.truncate_def)

lemma updatePrices_stored:
  "map PortfolioItem.truncate (fst (updatePrices its w)) = its"
proof (induction its arbitrary: w)
  case Nil
  show ?case by simp
next
  case (Cons item rest)
  obtain r w1 where r: "getCryptoByIdOrSymbol (coinId item) ''usd'' w = (r, w1)"
    by (cases "getCryptoByIdOrSymbol (coinId item) ''usd'' w")
  obtain rest' w2 where u: "updatePrices rest w1 = (rest', w2)"
    by (cases "updatePrices rest w1")
  from Cons [of w1] u have "map PortfolioItem.truncate rest' = rest"
    by simp
  with r u show ?case
    by (cases r) (simp_all add: truncate_unpriced)
qed

lemma updatePrices_prices:
  "map (\<lambda>v. (currentPrice v, priceChange24h v)) (fst (updatePrices its w)) =
   map (\<lambda>r. (map_option current_price r, map_option price_change_percentage_24h r))
     (resolutions (map coinId its) w)"
proof (induction its arbitrary: w)
  case Nil
  show ?case by simp
next
  case (Cons item rest)
  obtain r w1 where r: "getCryptoByIdOrSymbol (coinId item) ''usd'' w = (r, w1)"
    by (cases "getCryptoByIdOrSymbol (coinId item) ''usd'' w")
  obtain rest' w2 where u: "updatePrices rest w1 = (rest', w2)"
    by (cases "updatePrices rest w1")
  from Cons [of w1] u
  have "map (\<lambda>v. (currentPrice v, priceChange24h v)) rest' =
      map (\<lambda>r. (map_option current_price r, map_option price_change_percentage_24h r))
        (resolutions (map coinId rest) w1)"
    by simp
  with r u show ?case
    by (cases r) (simp_all add: unpriced_def)
qed

lemma view_loop_eq:
  "view_loop its ti tc lines =
     (ti + (\<Sum>item \<leftarrow> filter (\<lambda>item. currentPrice item \<noteq> None) its. quantity item * purchasePrice item),
      tc + (\<Sum>item \<leftarrow> filter (\<lambda>item. currentPrice item \<noteq> None) its. quantity item * the (currentPrice item)),
      lines @ map (\<lambda>item.
          \<lparr>row_symbol = symbol item,
           invested = quantity item * purchasePrice item,
           currentValue = quantity item * the (currentPrice item),
           profitLoss = quantity item * the (currentPrice item) - quantity item * purchasePrice item,
           profitLossPercent = (quantity item * the (currentPrice item) - quantity item * purchasePrice item)
              / (quantity item * purchasePrice item) * 100\<rparr>)
        (filter (\<lambda>item. currentPrice item \<noteq> None) its))"
  by (induction its arbitrary: ti tc lines) (simp_all add: Let_def split: option.splits)

subsection \<open>Reading the stored portfolio\<close>

lemma ensureUUID_frame:
  "memories (snd (ensureUUID v w)) = memories w \<and>
   clock (snd (ensureUUID v w)) = clock w \<and>
   clock_reads (snd (ensureUUID v w)) = clock_reads w"
  by (simp add: ensureUUID_def uuidv4_def)

lemma ensureUUID_uuid:
  "is_uuid v \<Longrightarrow> ensureUUID v w = (v, w)"
  by (simp add: ensureUUID_def)

lemma getPortfolioMemory_frame:
  "memories (snd (getPortfolioMemory runtime uid w)) = memories w \<and>
   clock (snd (getPortfolioMemory runtime uid w)) = clock w \<and>
   clock_reads (snd (getPortfolioMemory runtime uid w)) = clock_reads w"
  by (cases "ensureUUID uid w")
    (use ensureUUID_frame [of uid w] in \<open>simp add: getPortfolioMemory_def Let_def\<close>)

lemma getPortfolioMemory_uuid:
  "is_uuid uid \<Longrightarrow> snd (getPortfolioMemory runtime uid w) = w"
  by (simp add: getPortfolioMemory_def ensureUUID_uuid Let_def)

lemma getPortfolioMemory_member:
  assumes "fst (getPortfolioMemory runtime uid w) = Some m"
  shows "m \<in> set (memories w) \<and> is_portfolio_of uid m"
proof -
  obtain room w1 where e: "ensureUUID uid w = (room, w1)"
    by (cases "ensureUUID uid w")
  let ?ms = "newest_first (filter (is_portfolio_of uid) (getMemories room 100 PORTFOLIO_AGENT w1))"
  from assms e have "?ms \<noteq> [] \<and> m = hd ?ms"
    by (auto simp add: getPortfolioMemory_def Let_def split: list.splits)
  then have "m \<in> set ?ms"
    by simp
  then have "m \<in> set (getMemories room 100 PORTFOLIO_AGENT w1) \<and> is_portfolio_of uid m"
    by (simp add: newest_first_def)
  moreover have "set (getMemories room 100 PORTFOLIO_AGENT w1) \<subseteq> set (memories w1)"
    using set_take_subset [of 100 "newest_first (filter (\<lambda>m. roomId m = room \<and> agentId m = PORTFOLIO_AGENT) (memories w1))"]
    by (auto simp add: getMemories_def newest_first_def)
  moreover have "memories w1 = memories w"
    using ensureUUID_frame [of uid w] e by simp
  ultimately show ?thesis
    by auto
qed

lemma getPortfolio_some:
  assumes "fst (getPortfolioMemory runtime uid w) = Some m" "items (content m) \<noteq> []"
  shows "fst (getPortfolio runtime uid w) =
     Some \<lparr>view_items =
             fst (updatePrices (items (content m))
                    ((snd (getPortfolioMemory runtime uid w))
                       \<lparr>clock_reads := Suc (clock_reads w)\<rparr>)),
           view_lastUpdated = clock w (clock_reads w)\<rparr>"
  using assms getPortfolioMemory_frame [of runtime uid w]
  by (cases "getPortfolioMemory runtime uid w")
    (simp add: getPortfolio_def Date_now_def Let_def split: prod.splits)

lemma getPortfolio_lastUpdated:
  assumes "fst (getPortfolio runtime uid w) = Some v"
  shows "view_lastUpdated v = clock w (clock_reads w)"
proof -
  obtain pm w1 where g: "getPortfolioMemory runtime uid w = (pm, w1)"
    by (cases "getPortfolioMemory runtime uid w")
  with assms obtain m where m: "pm = Some m" "items (content m) \<noteq> []"
    by (cases pm) (auto simp add: getPortfolio_def Let_def split: if_splits)
  from getPortfolio_some [of runtime uid w m] g m assms show ?thesis
    by auto
qed

lemma hasPortfolio_uuid:
  assumes "is_uuid uid" "fst (getPortfolioMemory runtime uid w) = Some m"
  shows "hasPortfolio runtime uid w = (items (content m) \<noteq> [], w)"
  using assms getPortfolioMemory_uuid [of uid runtime w]
  by (cases "getPortfolioMemory runtime uid w") (simp add: hasPortfolio_def)

subsection \<open>The arithmetic of a row\<close>

text \<open>
  Claim C6. For every item of the portfolio that \<open>getPortfolio\<close> returned with a
  \<open>currentPrice\<close>, the view has a row with \<open>invested = quantity * purchasePrice\<close>,
  \<open>currentValue = quantity * currentPrice\<close>, \<open>profitLoss = currentValue - invested\<close> and
  \<open>profitLossPercent = profitLoss / invested * 100\<close>. The invested value is taken to be
  non-zero, so that the quotient is a number. The instance after the theorem is the
  stored position of quantity 2 at average cost 100 with the live price 150: the row
  is 200, 300, 100 and 50.
\<close>

theorem view_valuation_arithmetic:
  "item \<in> set (view_items portfolio) \<and> currentPrice item = Some price \<and>
   quantity item * purchasePrice item \<noteq> 0 \<longrightarrow>
     \<lparr>row_symbol = symbol item,
      invested = quantity item * purchasePrice item,
      currentValue = quantity item * price,
      profitLoss = quantity item * price - quantity item * purchasePrice item,
      profitLossPercent =
        (quantity item * price - quantity item * purchasePrice item)
          / (quantity item * purchasePrice item) * 100\<rparr>
     \<in> set (rows (view_summary portfolio))"
proof (intro impI, elim conjE)
  assume a: "item \<in> set (view_items portfolio)" and p: "currentPrice item = Some price"
  let ?row = "\<lambda>item.
          \<lparr>row_symbol = symbol item,
           invested = quantity item * purchasePrice item,
           currentValue = quantity item * the (currentPrice item),
           profitLoss = quantity item * the (currentPrice item) - quantity item * purchasePrice item,
           profitLossPercent = (quantity item * the (currentPrice item) - quantity item * purchasePrice item)
              / (quantity item * purchasePrice item) * 100\<rparr>"
  have "rows (view_summary portfolio) =
      map ?row (filter (\<lambda>item. currentPrice item \<noteq> None) (view_items portfolio))"
    by (simp add: view_summary_def view_loop_eq)
  moreover from a p have "item \<in> set (filter (\<lambda>item. currentPrice item \<noteq> None) (view_items portfolio))"
    by simp
  ultimately have "?row item \<in> set (rows (view_summary portfolio))"
    by (metis (no_types, lifting) imageI set_map)
  with p show "\<lparr>row_symbol = symbol item,
      invested = quantity item * purchasePrice item,
      currentValue = quantity item * price,
      profitLoss = quantity item * price - quantity item * purchasePrice item,
      profitLossPercent =
        (quantity item * price - quantity item * purchasePrice item)
          / (quantity item * purchasePrice item) * 100\<rparr>
     \<in> set (rows (view_summary portfolio))"
    by simp
qed

theorem view_valuation_arithmetic_witness:
  "fst (getPortfolio the_runtime alice
          (world_with [position ''bitcoin'' ''BTC'' ''Bitcoin'' 2 100] net_up 1000))
     = Some \<lparr>view_items =
               [(unpriced (position ''bitcoin'' ''BTC'' ''Bitcoin'' 2 100))
                  \<lparr>currentPrice := Some 150, priceChange24h := Some 2\<rparr>],
             view_lastUpdated = 100000\<rparr> \<and>
   \<lparr>row_symbol = ''BTC'', invested = 200, currentValue = 300, profitLoss = 100,
    profitLossPercent = 50\<rparr>
     \<in> set (rows (view_summary
          \<lparr>view_items =
               [(unpriced (position ''bitcoin'' ''BTC'' ''Bitcoin'' 2 100))
                  \<lparr>currentPrice := Some 150, priceChange24h := Some 2\<rparr>],
             view_lastUpdated = 100000\<rparr>))"
proof -
  let ?item = "(unpriced (position ''bitcoin'' ''BTC'' ''Bitcoin'' 2 100))
                  \<lparr>currentPrice := Some 150, priceChange24h := Some 2\<rparr>"
  have a: "fst (getPortfolio the_runtime alice
          (world_with [position ''bitcoin'' ''BTC'' ''Bitcoin'' 2 100] net_up 1000))
     = Some \<lparr>view_items = [?item], view_lastUpdated = 100000\<rparr>"
    by code_simp
  have b: "symbol ?item = ''BTC'' \<and> quantity ?item = 2 \<and> purchasePrice ?item = 100 \<and>
      currentPrice ?item = Some 150"
    by (simp add: unpriced_def position_def)
  from view_valuation_arithmetic [of ?item "\<lparr>view_items = [?item], view_lastUpdated = 100000\<rparr>" 150] b
  have "\<lparr>row_symbol = ''BTC'', invested = 200, currentValue = 300, profitLoss = 100,
      profitLossPercent = 50\<rparr>
     \<in> set (rows (view_summary \<lparr>view_items = [?item], view_lastUpdated = 100000\<rparr>))"
    by simp
  with a show ?thesis
    by simp
qed

subsection \<open>Positions without a price\<close>

text \<open>
  Claim C7. When the owner has a stored portfolio with at least one position,
  \<open>getPortfolio\<close> returns a portfolio, whatever the resolver answers. Its items are the
  stored positions, every one of them, in order and with their stored fields. The
  item of a position carries \<open>currentPrice\<close> and \<open>priceChange24h\<close> exactly when the
  resolver answered with an asset when the loop asked for that position, and then they
  are that asset's. The totals of the view are sums over the items that carry a price:
  \<open>totalInvested\<close> of their invested values, \<open>totalCurrentValue\<close> of their current values,
  and \<open>totalProfitLoss\<close> is the difference. For an owner whose id is a UUID the handler
  shows this view.
\<close>

theorem getPortfolio_partial_degradation:
  "fst (getPortfolioMemory runtime uid w) = Some m \<and> items (content m) \<noteq> [] \<longrightarrow>
   (\<exists>v. fst (getPortfolio runtime uid w) = Some v \<and>
      map PortfolioItem.truncate (view_items v) = items (content m) \<and>
      map (\<lambda>item. (currentPrice item, priceChange24h item)) (view_items v) =
        map (\<lambda>r. (map_option current_price r, map_option price_change_percentage_24h r))
          (resolutions (map coinId (items (content m)))
             ((snd (getPortfolioMemory runtime uid w))\<lparr>clock_reads := Suc (clock_reads w)\<rparr>)) \<and>
      totalInvested (view_summary v) =
        (\<Sum>item \<leftarrow> filter (\<lambda>item. currentPrice item \<noteq> None) (view_items v).
           quantity item * purchasePrice item) \<and>
      totalCurrentValue (view_summary v) =
        (\<Sum>item \<leftarrow> filter (\<lambda>item. currentPrice item \<noteq> None) (view_items v).
           quantity item * the (currentPrice item)) \<and>
      totalProfitLoss (view_summary v) =
        totalCurrentValue (view_summary v) - totalInvested (view_summary v) \<and>
      (is_uuid uid \<longrightarrow> fst (viewPortfolio_handler runtime uid w) = Shown (view_summary v)))"
proof (intro impI, elim conjE)
  assume m: "fst (getPortfolioMemory runtime uid w) = Some m" and ne: "items (content m) \<noteq> []"
  let ?w2 = "(snd (getPortfolioMemory runtime uid w))\<lparr>clock_reads := Suc (clock_reads w)\<rparr>"
  let ?v = "\<lparr>view_items = fst (updatePrices (items (content m)) ?w2),
            view_lastUpdated = clock w (clock_reads w)\<rparr>"
  have v: "fst (getPortfolio runtime uid w) = Some ?v"
    using m ne by (rule getPortfolio_some)
  have stored: "map PortfolioItem.truncate (view_items ?v) = items (content m)"
    by (simp add: updatePrices_stored)
  have prices: "map (\<lambda>item. (currentPrice item, priceChange24h item)) (view_items ?v) =
        map (\<lambda>r. (map_option current_price r, map_option price_change_percentage_24h r))
          (resolutions (map coinId (items (content m))) ?w2)"
    by (simp add: updatePrices_prices)
  have totals: "totalInvested (view_summary ?v) =
        (\<Sum>item \<leftarrow> filter (\<lambda>item. currentPrice item \<noteq> None) (view_items ?v).
           quantity item * purchasePrice item) \<and>
      totalCurrentValue (view_summary ?v) =
        (\<Sum>item \<leftarrow> filter (\<lambda>item. currentPrice item \<noteq> None) (view_items ?v).
           quantity item * the (currentPrice item)) \<and>
      totalProfitLoss (view_summary ?v) =
        totalCurrentValue (view_summary ?v) - totalInvested (view_summary ?v)"
    by (simp add: view_summary_def view_loop_eq)
  have handler: "is_uuid uid \<longrightarrow> fst (viewPortfolio_handler runtime uid w) = Shown (view_summary ?v)"
  proof
    assume u: "is_uuid uid"
    from stored ne have "view_items ?v \<noteq> []"
      by auto
    with v hasPortfolio_uuid [OF u m] ne show "fst (viewPortfolio_handler runtime uid w) = Shown (view_summary ?v)"
      by (cases "getPortfolio runtime uid w") (simp add: viewPortfolio_handler_def)
  qed
  from v stored prices totals handler
  show "\<exists>v. fst (getPortfolio runtime uid w) = Some v \<and>
      map PortfolioItem.truncate (view_items v) = items (content m) \<and>
      map (\<lambda>item. (currentPrice item, priceChange24h item)) (view_items v) =
        map (\<lambda>r. (map_option current_price r, map_option price_change_percentage_24h r))
          (resolutions (map coinId (items (content m))) ?w2) \<and>
      totalInvested (view_summary v) =
        (\<Sum>item \<leftarrow> filter (\<lambda>item. currentPrice item \<noteq> None) (view_items v).
           quantity item * purchasePrice item) \<and>
      totalCurrentValue (view_summary v) =
        (\<Sum>item \<leftarrow> filter (\<lambda>item. currentPrice item \<noteq> None) (view_items v).
           quantity item * the (currentPrice item)) \<and>
      totalProfitLoss (view_summary v) =
        totalCurrentValue (view_summary v) - totalInvested (view_summary v) \<and>
      (is_uuid uid \<longrightarrow> fst (viewPortfolio_handler runtime uid w) = Shown (view_summary v))"
    by blast
qed

theorem getPortfolio_partial_degradation_witness:
  "\<exists>v. fst (getPortfolio the_runtime alice
            (world_with [position ''ethereum'' ''ETH'' ''Ethereum'' 10 20,
                         position ''bitcoin'' ''BTC'' ''Bitcoin'' 2 100] net_flaky 1000)) = Some v \<and>
      map PortfolioItem.truncate (view_items v) =
        [position ''ethereum'' ''ETH'' ''Ethereum'' 10 20, position ''bitcoin'' ''BTC'' ''Bitcoin'' 2 100] \<and>
      map currentPrice (view_items v) = [None, Some 150] \<and>
      totalInvested (view_summary v) = 200 \<and>
      totalCurrentValue (view_summary v) = 300 \<and>
      totalProfitLoss (view_summary v) = 100 \<and>
      fst (viewPortfolio_handler the_runtime alice
            (world_with [position ''ethereum'' ''ETH'' ''Ethereum'' 10 20,
                         position ''bitcoin'' ''BTC'' ''Bitcoin'' 2 100] net_flaky 1000))
        = Shown (view_summary v)"
proof -
  let ?its = "[position ''ethereum'' ''ETH'' ''Ethereum'' 10 20, position ''bitcoin'' ''BTC'' ''Bitcoin'' 2 100]"
  let ?w = "world_with ?its net_flaky 1000"
  let ?v = "\<lparr>view_items =
               [unpriced (position ''ethereum'' ''ETH'' ''Ethereum'' 10 20),
                (unpriced (position ''bitcoin'' ''BTC'' ''Bitcoin'' 2 100))
                  \<lparr>currentPrice := Some 150, priceChange24h := Some 2\<rparr>],
             view_lastUpdated = 100000\<rparr>"
  have m: "fst (getPortfolioMemory the_runtime alice ?w) = Some (stored ?its)"
    by code_simp
  have ne: "items (content (stored ?its)) \<noteq> []"
    by (simp add: stored_def)
  have u: "is_uuid alice"
    by code_simp
  have g: "fst (getPortfolio the_runtime alice ?w) = Some ?v"
    by code_simp
  have s: "map PortfolioItem.truncate (view_items ?v) = ?its \<and>
      map currentPrice (view_items ?v) = [None, Some 150] \<and>
      totalInvested (view_summary ?v) = 200 \<and>
      totalCurrentValue (view_summary ?v) = 300 \<and>
      totalProfitLoss (view_summary ?v) = 100"
    by code_simp
  from getPortfolio_partial_degradation [of the_runtime alice ?w "stored ?its"] m ne u
  obtain v where "fst (getPortfolio the_runtime alice ?w) = Some v"
    and "fst (viewPortfolio_handler the_runtime alice ?w) = Shown (view_summary v)"
    by blast
  with g have "fst (viewPortfolio_handler the_runtime alice ?w) = Shown (view_summary ?v)"
    by simp
  with g s show ?thesis
    by (intro exI [of _ ?v]) simp
qed

section \<open>Writing the portfolio\<close>

lemma findIndex_Some:
  "findIndex P xs = Some i \<Longrightarrow> i < length xs \<and> P (xs ! i) \<and> (\<forall>j < i. \<not> P (xs ! j))"
proof (induction xs arbitrary: i)
  case Nil
  then show ?case by simp
next
  case (Cons x xs)
  show ?case
  proof (cases "P x")
    case True
    with Cons.prems show ?thesis by simp
  next
    case False
    with Cons.prems obtain k where k: "findIndex P xs = Some k" "i = Suc k"
      by auto
    from Cons.IH [OF k(1)] False k(2) show ?thesis
      by (auto simp add: nth_Cons split: nat.splits)
  qed
qed

lemma addToPortfolio_new:
  assumes "getCryptoByIdOrSymbol cid ''usd'' w = (Some coin, w1)"
    and "getPortfolioMemory runtime uid w1 = (pm, w2)"
    and "findIndex (\<lambda>item. coinId item = coin_id coin)
           (case pm of None \<Rightarrow> [] | Some m \<Rightarrow> items (content m)) = None"
  shows "addToPortfolio runtime uid cid qty price w =
     (Some \<lparr>coinId = coin_id coin, symbol = toUpperCase (coin_symbol coin), name = coin_name coin,
            quantity = qty, purchasePrice = price, purchaseDate = clock w2 (clock_reads w2)\<rparr>,
      savePortfolio runtime uid
        ((case pm of None \<Rightarrow> [] | Some m \<Rightarrow> items (content m)) @
          [\<lparr>coinId = coin_id coin, symbol = toUpperCase (coin_symbol coin), name = coin_name coin,
            quantity = qty, purchasePrice = price, purchaseDate = clock w2 (clock_reads w2)\<rparr>])
        (w2\<lparr>clock_reads := Suc (clock_reads w2)\<rparr>))"
  using assms by (simp add: addToPortfolio_def Date_now_def Let_def)

lemma addToPortfolio_existing:
  assumes "getCryptoByIdOrSymbol cid ''usd'' w = (Some coin, w1)"
    and "getPortfolioMemory runtime uid w1 = (pm, w2)"
    and "findIndex (\<lambda>item. coinId item = coin_id coin)
           (case pm of None \<Rightarrow> [] | Some m \<Rightarrow> items (content m)) = Some i"
  shows "addToPortfolio runtime uid cid qty price w =
     (Some (((case pm of None \<Rightarrow> [] | Some m \<Rightarrow> items (content m)) ! i)
          \<lparr>quantity := quantity ((case pm of None \<Rightarrow> [] | Some m \<Rightarrow> items (content m)) ! i) + qty,
           purchasePrice :=
             (quantity ((case pm of None \<Rightarrow> [] | Some m \<Rightarrow> items (content m)) ! i)
                * purchasePrice ((case pm of None \<Rightarrow> [] | Some m \<Rightarrow> items (content m)) ! i)
              + qty * price)
             / (quantity ((case pm of None \<Rightarrow> [] | Some m \<Rightarrow> items (content m)) ! i) + qty),
           purchaseDate := clock w2 (Suc (clock_reads w2))\<rparr>),
      savePortfolio runtime uid
        ((case pm of None \<Rightarrow> [] | Some m \<Rightarrow> items (content m))
           [i := ((case pm of None \<Rightarrow> [] | Some m \<Rightarrow> items (content m)) ! i)
          \<lparr>quantity := quantity ((case pm of None \<Rightarrow> [] | Some m \<Rightarrow> items (content m)) ! i) + qty,
           purchasePrice :=
             (quantity ((case pm of None \<Rightarrow> [] | Some m \<Rightarrow> items (content m)) ! i)
                * purchasePrice ((case pm of None \<Rightarrow> [] | Some m \<Rightarrow> items (content m)) ! i)
              + qty * price)
             / (quantity ((case pm of None \<Rightarrow> [] | Some m \<Rightarrow> items (content m)) ! i) + qty),
           purchaseDate := clock w2 (Suc (clock_reads w2))\<rparr>])
        (w2\<lparr>clock_reads := Suc (Suc (clock_reads w2))\<rparr>))"
proof -
  from findIndex_Some [OF assms(3)]
  have "i < length (case pm of None \<Rightarrow> [] | Some m \<Rightarrow> items (content m))"
    by simp
  with assms show ?thesis
    by (simp add: addToPortfolio_def Date_now_def Let_def)
qed

lemma savePortfolio_writes:
  "\<exists>x \<in> set (memories (savePortfolio runtime uid portfolio w)).
      items (content x) = portfolio \<and> lastUpdated (content x) = clock w (clock_reads w)"
proof -
  obtain room w1 where e: "ensureUUID uid w = (room, w1)"
    by (cases "ensureUUID uid w")
  obtain pm w2 where g: "getPortfolioMemory runtime uid w1 = (pm, w2)"
    by (cases "getPortfolioMemory runtime uid w1")
  from e g ensureUUID_frame [of uid w] getPortfolioMemory_frame [of runtime uid w1]
  have fr: "memories w2 = memories w" "clock w2 = clock w" "clock_reads w2 = clock_reads w"
    by simp_all
  show ?thesis
  proof (cases pm)
    case None
    obtain u w3 where u: "uuidv4 w2 = (u, w3)"
      by (cases "uuidv4 w2")
    obtain i w4 where i: "ensureUUID u w3 = (i, w4)"
      by (cases "ensureUUID u w3")
    from u have "clock w3 = clock w2 \<and> clock_reads w3 = clock_reads w2"
      by (auto simp add: uuidv4_def)
    with i ensureUUID_frame [of u w3] fr
    have "clock w4 = clock w" "clock_reads w4 = clock_reads w"
      by simp_all
    with e g None u i show ?thesis
      by (simp add: savePortfolio_def Date_now_def createMemory_def)
  next
    case (Some em)
    with g getPortfolioMemory_member [of runtime uid w1 em] e ensureUUID_frame [of uid w]
    have "em \<in> set (memories w)"
      by simp
    let ?em' = "em\<lparr>content := (content em)
        \<lparr>userId := uid, items := portfolio, lastUpdated := clock w (clock_reads w)\<rparr>,
        embedding := None\<rparr>"
    let ?f = "\<lambda>x. if mem_id x = mem_id em then ?em' else x"
    have "?f em \<in> ?f ` set (memories w)"
      using \<open>em \<in> set (memories w)\<close> by (rule imageI)
    then have "?em' \<in> set (map ?f (memories w))"
      by simp
    moreover from e g Some fr
    have "memories (savePortfolio runtime uid portfolio w) = map ?f (memories w)"
      by (simp add: savePortfolio_def Date_now_def updateMemory_def)
    ultimately have "?em' \<in> set (memories (savePortfolio runtime uid portfolio w))"
      by simp
    moreover have "items (content ?em') = portfolio \<and>
        lastUpdated (content ?em') = clock w (clock_reads w)"
      by simp
    ultimately show ?thesis
      by blast
  qed
qed

subsection \<open>\<open>lastUpdated\<close>\<close>

text \<open>
  Claim C9 as stated has a merge leave the stored \<open>lastUpdated\<close> alone. \<open>savePortfolio\<close>
  writes it: a merge into a stored portfolio whose \<open>lastUpdated\<close> is 500, made when the
  clock reads 103000 at the write, leaves 103000 in the stored record.
\<close>

theorem merge_sets_stored_lastUpdated_counterexample:
  "map (lastUpdated \<circ> content)
     (memories (world_with [position ''bitcoin'' ''BTC'' ''Bitcoin'' 1 100] net_up 1000)) = [500] \<and>
   map (lastUpdated \<circ> content)
     (memories (snd (addToPortfolio the_runtime alice ''bitcoin'' 3 140
        (world_with [position ''bitcoin'' ''BTC'' ''Bitcoin'' 1 100] net_up 1000)))) = [103000]"
  by code_simp

text \<open>
  Claim C9, as the code has it. The \<open>lastUpdated\<close> of the portfolio that a valuation
  returns is the clock's reading in that call of \<open>getPortfolio\<close>; the stored value is not
  used. The stored \<open>lastUpdated\<close> is set at mutation time: \<open>savePortfolio\<close> leaves a record
  that holds the saved items and the clock's reading in that call, and so after every
  successful merge a stored record holds the merged position and the time of the write
  (the third reading of the clock after the start of the merge for a new position, the
  fourth for a position that existed).
\<close>

theorem lastUpdated_set_by_read_and_by_write:
  "(fst (getPortfolio runtime uid w) = Some v \<longrightarrow> view_lastUpdated v = clock w (clock_reads w)) \<and>
   (\<exists>x \<in> set (memories (savePortfolio runtime uid portfolio w)).
      items (content x) = portfolio \<and> lastUpdated (content x) = clock w (clock_reads w)) \<and>
   (fst (addToPortfolio runtime uid cid qty price w) = Some item \<longrightarrow>
      (\<exists>x \<in> set (memories (snd (addToPortfolio runtime uid cid qty price w))).
         item \<in> set (items (content x)) \<and>
         (lastUpdated (content x) = clock w (clock_reads w + 2) \<or>
          lastUpdated (content x) = clock w (clock_reads w + 3))))"
proof (intro conjI impI)
  assume "fst (getPortfolio runtime uid w) = Some v"
  then show "view_lastUpdated v = clock w (clock_reads w)"
    by (rule getPortfolio_lastUpdated)
next
  show "\<exists>x \<in> set (memories (savePortfolio runtime uid portfolio w)).
      items (content x) = portfolio \<and> lastUpdated (content x) = clock w (clock_reads w)"
    by (rule savePortfolio_writes)
next
  assume ok: "fst (addToPortfolio runtime uid cid qty price w) = Some item"
  obtain r w1 where r: "getCryptoByIdOrSymbol cid ''usd'' w = (r, w1)"
    by (cases "getCryptoByIdOrSymbol cid ''usd'' w")
  with ok addToPortfolio_unresolved [of cid w runtime uid qty price]
  obtain coin where coin: "r = Some coin"
    by (cases r) auto
  obtain pm w2 where g: "getPortfolioMemory runtime uid w1 = (pm, w2)"
    by (cases "getPortfolioMemory runtime uid w1")
  from r g getCryptoByIdOrSymbol_frame [of cid "''usd''" w] getPortfolioMemory_frame [of runtime uid w1]
  have fr: "clock w2 = clock w" "clock_reads w2 = Suc (clock_reads w)"
    by simp_all
  let ?portfolio = "case pm of None \<Rightarrow> [] | Some m \<Rightarrow> items (content m)"
  show "\<exists>x \<in> set (memories (snd (addToPortfolio runtime uid cid qty price w))).
         item \<in> set (items (content x)) \<and>
         (lastUpdated (content x) = clock w (clock_reads w + 2) \<or>
          lastUpdated (content x) = clock w (clock_reads w + 3))"
  proof (cases "findIndex (\<lambda>item. coinId item = coin_id coin) ?portfolio")
    case None
    note new = addToPortfolio_new [OF r [unfolded coin] g None, of qty price]
    let ?new = "\<lparr>coinId = coin_id coin, symbol = toUpperCase (coin_symbol coin), name = coin_name coin,
            quantity = qty, purchasePrice = price, purchaseDate = clock w2 (clock_reads w2)\<rparr>"
    from savePortfolio_writes [of runtime uid "?portfolio @ [?new]" "w2\<lparr>clock_reads := Suc (clock_reads w2)\<rparr>"]
    obtain x where x: "x \<in> set (memories (savePortfolio runtime uid (?portfolio @ [?new])
          (w2\<lparr>clock_reads := Suc (clock_reads w2)\<rparr>)))"
        "items (content x) = ?portfolio @ [?new]"
        "lastUpdated (content x) = clock w2 (Suc (clock_reads w2))"
      by auto
    from ok new have "item = ?new"
      by simp
    with x(2) have "item \<in> set (items (content x))"
      by simp
    moreover from x(3) fr have "lastUpdated (content x) = clock w (clock_reads w + 2)"
      by (simp add: eval_nat_numeral)
    moreover from x(1) new
    have "x \<in> set (memories (snd (addToPortfolio runtime uid cid qty price w)))"
      by simp
    ultimately show ?thesis
      by blast
  next
    case (Some i)
    note ex = addToPortfolio_existing [OF r [unfolded coin] g Some, of qty price]
    let ?upd = "(?portfolio ! i)
          \<lparr>quantity := quantity (?portfolio ! i) + qty,
           purchasePrice :=
             (quantity (?portfolio ! i) * purchasePrice (?portfolio ! i) + qty * price)
             / (quantity (?portfolio ! i) + qty),
           purchaseDate := clock w2 (Suc (clock_reads w2))\<rparr>"
    from savePortfolio_writes [of runtime uid "?portfolio[i := ?upd]" "w2\<lparr>clock_reads := Suc (Suc (clock_reads w2))\<rparr>"]
    obtain x where x: "x \<in> set (memories (savePortfolio runtime uid (?portfolio[i := ?upd])
          (w2\<lparr>clock_reads := Suc (Suc (clock_reads w2))\<rparr>)))"
        "items (content x) = ?portfolio[i := ?upd]"
        "lastUpdated (content x) = clock w2 (Suc (Suc (clock_reads w2)))"
      by auto
    from findIndex_Some [OF Some] have "i < length ?portfolio"
      by simp
    then have "?upd \<in> set (?portfolio[i := ?upd])"
      by (simp add: set_update_memI)
    moreover from ok ex have "item = ?upd"
      by simp
    ultimately have "item \<in> set (items (content x))"
      using x(2) by simp
    moreover from x(3) fr have "lastUpdated (content x) = clock w (clock_reads w + 3)"
      by (simp add: eval_nat_numeral)
    moreover from x(1) ex
    have "x \<in> set (memories (snd (addToPortfolio runtime uid cid qty price w)))"
      by simp
    ultimately show ?thesis
      by blast
  qed
qed

theorem lastUpdated_set_by_read_and_by_write_witness:
  "view_lastUpdated (the (fst (getPortfolio the_runtime alice
      (world_with [position ''bitcoin'' ''BTC'' ''Bitcoin'' 1 100] net_up 1000)))) = 100000 \<and>
   (\<exists>x \<in> set (memories (snd (addToPortfolio the_runtime alice ''bitcoin'' 3 140
        (world_with [position ''bitcoin'' ''BTC'' ''Bitcoin'' 1 100] net_up 1000)))).
      lastUpdated (content x) = 102000 \<or> lastUpdated (content x) = 103000)"
proof -
  let ?w = "world_with [position ''bitcoin'' ''BTC'' ''Bitcoin'' 1 100] net_up 1000"
  let ?v = "\<lparr>view_items = [(unpriced (position ''bitcoin'' ''BTC'' ''Bitcoin'' 1 100))
                  \<lparr>currentPrice := Some 150, priceChange24h := Some 2\<rparr>],
             view_lastUpdated = 100000\<rparr>"
  let ?item = "\<lparr>coinId = ''bitcoin'', symbol = ''BTC'', name = ''Bitcoin'', quantity = 4,
             purchasePrice = 130, purchaseDate = 102000\<rparr>"
  have a: "fst (getPortfolio the_runtime alice ?w) = Some ?v"
    by code_simp
  have b: "fst (addToPortfolio the_runtime alice ''bitcoin'' 3 140 ?w) = Some ?item"
    by code_simp
  have c: "clock ?w (clock_reads ?w) = 100000 \<and> clock ?w (clock_reads ?w + 2) = 102000 \<and>
      clock ?w (clock_reads ?w + 3) = 103000"
    by (simp add: world_with_def fresh_world_def)
  note t = lastUpdated_set_by_read_and_by_write
    [where runtime = the_runtime and uid = alice and w = ?w and v = ?v and cid = "''bitcoin''"
       and qty = 3 and price = 140 and item = ?item]
  from t a c have "view_lastUpdated ?v = 100000"
    by simp
  moreover from t b c
  have "\<exists>x \<in> set (memories (snd (addToPortfolio the_runtime alice ''bitcoin'' 3 140 ?w))).
      lastUpdated (content x) = 102000 \<or> lastUpdated (content x) = 103000"
    by (simp only: ) blast
  ultimately show ?thesis
    using a by simp
qed

section \<open>The weighted average\<close>

subsection \<open>Reading back what was saved\<close>

lemma insort_key_map_same_key:
  assumes "f (g x) = f x" "\<forall>y \<in> set ys. f (g y) = f y"
  shows "insort_key f (g x) (map g ys) = map g (insort_key f x ys)"
  using assms by (induction ys) simp_all

lemma sort_key_map_same_key:
  assumes "\<forall>x \<in> set xs. f (g x) = f x"
  shows "sort_key f (map g xs) = map g (sort_key f xs)"
  using assms
proof (induction xs)
  case Nil
  show ?case by simp
next
  case (Cons x xs)
  then have "sort_key f (map g xs) = map g (sort_key f xs)"
    by simp
  moreover from Cons.prems have "f (g x) = f x" "\<forall>y \<in> set (sort_key f xs). f (g y) = f y"
    by simp_all
  ultimately show ?case
    by (simp add: insort_key_map_same_key)
qed

lemma filter_map_same_pred:
  assumes "\<forall>x \<in> set xs. P (g x) = P x"
  shows "filter P (map g xs) = map g (filter P xs)"
  using assms by (induction xs) simp_all

lemma getPortfolioMemory_reads:
  assumes "memories w' = memories w" "uuids w' = uuids w" "uuid_reads w' = uuid_reads w"
  shows "fst (getPortfolioMemory runtime uid w') = fst (getPortfolioMemory runtime uid w)"
  using assms
  by (simp add: getPortfolioMemory_def ensureUUID_def uuidv4_def getMemories_def Let_def)

lemma getPortfolioMemory_after_update:
  assumes u: "is_uuid uid"
    and m: "fst (getPortfolioMemory runtime uid w) = Some m"
    and d: "distinct (map mem_id (memories w))"
    and k: "roomId m' = roomId m" "agentId m' = agentId m" "createdAt m' = createdAt m"
      "is_portfolio_of uid m'"
  shows "fst (getPortfolioMemory runtime uid (updateMemory (mem_id m) m' w)) = Some m'"
proof -
  let ?g = "\<lambda>x. if mem_id x = mem_id m then m' else x"
  let ?P = "\<lambda>x. roomId x = uid \<and> agentId x = PORTFOLIO_AGENT"
  let ?k = "\<lambda>x. - createdAt x"
  from getPortfolioMemory_member [OF m] have mem: "m \<in> set (memories w)" "is_portfolio_of uid m"
    by simp_all
  have same: "x = m" if "x \<in> set (memories w)" "mem_id x = mem_id m" for x
    using that mem(1) d by (auto simp add: distinct_map inj_on_def)
  have P: "\<forall>x \<in> set (memories w). ?P (?g x) = ?P x"
    using same k by auto
  have K: "\<forall>x \<in> set (memories w). ?k (?g x) = ?k x"
    using same k by auto
  have Q: "\<forall>x \<in> set (memories w). is_portfolio_of uid (?g x) = is_portfolio_of uid x"
    using same k mem by auto
  let ?L = "take 100 (sort_key ?k (filter ?P (memories w)))"
  have sub: "set ?L \<subseteq> set (memories w)"
    using set_take_subset [of 100 "sort_key ?k (filter ?P (memories w))"] by auto
  have "getMemories uid 100 PORTFOLIO_AGENT (updateMemory (mem_id m) m' w) = map ?g ?L"
    using P K
    by (simp add: getMemories_def updateMemory_def newest_first_def filter_map_same_pred
        sort_key_map_same_key take_map)
  moreover have "filter (is_portfolio_of uid) (map ?g ?L) = map ?g (filter (is_portfolio_of uid) ?L)"
  proof (rule filter_map_same_pred, rule ballI)
    fix x
    assume "x \<in> set ?L"
    with sub have "x \<in> set (memories w)"
      by blast
    with Q show "is_portfolio_of uid (?g x) = is_portfolio_of uid x"
      by blast
  qed
  moreover have "sort_key ?k (map ?g (filter (is_portfolio_of uid) ?L))
      = map ?g (sort_key ?k (filter (is_portfolio_of uid) ?L))"
  proof (rule sort_key_map_same_key, rule ballI)
    fix x
    assume "x \<in> set (filter (is_portfolio_of uid) ?L)"
    with sub have "x \<in> set (memories w)"
      by auto
    with K show "?k (?g x) = ?k x"
      by blast
  qed
  ultimately have after: "fst (getPortfolioMemory runtime uid (updateMemory (mem_id m) m' w)) =
      (case map ?g (sort_key ?k (filter (is_portfolio_of uid) ?L)) of [] \<Rightarrow> None | x # _ \<Rightarrow> Some x)"
    using u by (simp add: getPortfolioMemory_def ensureUUID_uuid Let_def newest_first_def)
  from m u have "(case sort_key ?k (filter (is_portfolio_of uid) ?L) of [] \<Rightarrow> None | x # _ \<Rightarrow> Some x) = Some m"
    by (simp add: getPortfolioMemory_def ensureUUID_uuid Let_def newest_first_def getMemories_def)
  then obtain rest where "sort_key ?k (filter (is_portfolio_of uid) ?L) = m # rest"
    by (auto split: list.splits)
  with after show ?thesis
    by simp
qed

lemma savePortfolio_existing:
  assumes u: "is_uuid uid" and m: "fst (getPortfolioMemory runtime uid w) = Some m"
  shows "savePortfolio runtime uid portfolio w =
     updateMemory (mem_id m)
       (m\<lparr>content := (content m)
            \<lparr>userId := uid, items := portfolio, lastUpdated := clock w (clock_reads w)\<rparr>,
          embedding := None\<rparr>)
       (w\<lparr>clock_reads := Suc (clock_reads w)\<rparr>)"
  using m getPortfolioMemory_uuid [OF u, of runtime w]
  by (cases "getPortfolioMemory runtime uid w")
    (simp add: savePortfolio_def ensureUUID_uuid [OF u] Date_now_def)

lemma savePortfolio_then_read:
  assumes u: "is_uuid uid" and m: "fst (getPortfolioMemory runtime uid w) = Some m"
    and d: "distinct (map mem_id (memories w))"
  shows "\<exists>m'. fst (getPortfolioMemory runtime uid (savePortfolio runtime uid portfolio w)) = Some m' \<and>
     items (content m') = portfolio"
proof -
  let ?m' = "m\<lparr>content := (content m)
            \<lparr>userId := uid, items := portfolio, lastUpdated := clock w (clock_reads w)\<rparr>,
          embedding := None\<rparr>"
  let ?w1 = "w\<lparr>clock_reads := Suc (clock_reads w)\<rparr>"
  from getPortfolioMemory_member [OF m] have p: "is_portfolio_of uid m"
    by simp
  have m1: "fst (getPortfolioMemory runtime uid ?w1) = Some m"
    using m getPortfolioMemory_reads [of ?w1 w runtime uid] by simp
  have "fst (getPortfolioMemory runtime uid (updateMemory (mem_id m) ?m' ?w1)) = Some ?m'"
    using u m1
  proof (rule getPortfolioMemory_after_update)
    show "distinct (map mem_id (memories ?w1))" using d by simp
    show "is_portfolio_of uid ?m'" using p by (simp add: is_portfolio_of_def)
  qed simp_all
  then show ?thesis
    by (simp add: savePortfolio_existing [OF u m])
qed

subsection \<open>Merging into a position that exists\<close>

text \<open>
  Claim C2. Let the asset of the purchase resolve, and let the owner's stored portfolio
  hold a position in that asset, of quantity \<open>q0 > 0\<close> at average cost \<open>c0 > 0\<close>. Merging
  a purchase of quantity \<open>q1 > 0\<close> at unit price \<open>p1 > 0\<close> returns that position with quantity
  \<open>q0 + q1\<close> and average cost \<open>(q0 * c0 + q1 * p1) / (q0 + q1)\<close>, dated with the third
  reading of the clock; both are positive again. When the owner's id is a UUID and the
  ids of the memories are distinct, the stored portfolio read back after the merge is
  the old list with that position in place of the old one. The instance after the
  theorem is the purchase of 3 at 140 after the purchase of 1 at 100: quantity 4 at
  average cost 130, which is not the mean 120 of the two prices.
\<close>

theorem addToPortfolio_weighted_average:
  "fst (getCryptoByIdOrSymbol cid ''usd'' w) = Some coin \<and>
   fst (getPortfolioMemory runtime uid w) = Some m \<and>
   findIndex (\<lambda>item. coinId item = coin_id coin) (items (content m)) = Some i \<and>
   quantity (items (content m) ! i) = q0 \<and> purchasePrice (items (content m) ! i) = c0 \<and>
   0 < q0 \<and> 0 < c0 \<and> 0 < q1 \<and> 0 < p1 \<longrightarrow>
     fst (addToPortfolio runtime uid cid q1 p1 w) =
       Some ((items (content m) ! i)
         \<lparr>quantity := q0 + q1, purchasePrice := (q0 * c0 + q1 * p1) / (q0 + q1),
          purchaseDate := clock w (clock_reads w + 2)\<rparr>) \<and>
     0 < q0 + q1 \<and> 0 < (q0 * c0 + q1 * p1) / (q0 + q1) \<and>
     (is_uuid uid \<and> distinct (map mem_id (memories w)) \<longrightarrow>
        (\<exists>m'. fst (getPortfolioMemory runtime uid (snd (addToPortfolio runtime uid cid q1 p1 w)))
                = Some m' \<and>
              items (content m') = (items (content m))
                [i := (items (content m) ! i)
                   \<lparr>quantity := q0 + q1, purchasePrice := (q0 * c0 + q1 * p1) / (q0 + q1),
                    purchaseDate := clock w (clock_reads w + 2)\<rparr>]))"
proof (intro impI conjI)
  assume h: "fst (getCryptoByIdOrSymbol cid ''usd'' w) = Some coin \<and>
   fst (getPortfolioMemory runtime uid w) = Some m \<and>
   findIndex (\<lambda>item. coinId item = coin_id coin) (items (content m)) = Some i \<and>
   quantity (items (content m) ! i) = q0 \<and> purchasePrice (items (content m) ! i) = c0 \<and>
   0 < q0 \<and> 0 < c0 \<and> 0 < q1 \<and> 0 < p1"
  then have coin: "fst (getCryptoByIdOrSymbol cid ''usd'' w) = Some coin"
    and m: "fst (getPortfolioMemory runtime uid w) = Some m"
    and i: "findIndex (\<lambda>item. coinId item = coin_id coin) (items (content m)) = Some i"
    and q0: "quantity (items (content m) ! i) = q0"
    and c0: "purchasePrice (items (content m) ! i) = c0"
    and pos: "0 < q0" "0 < c0" "0 < q1" "0 < p1"
    by simp_all
  obtain w1 where r: "getCryptoByIdOrSymbol cid ''usd'' w = (Some coin, w1)"
    using coin by (cases "getCryptoByIdOrSymbol cid ''usd'' w") simp
  with getCryptoByIdOrSymbol_frame [of cid "''usd''" w]
  have fr1: "memories w1 = memories w" "uuids w1 = uuids w" "uuid_reads w1 = uuid_reads w"
      "clock w1 = clock w" "clock_reads w1 = Suc (clock_reads w)"
    by simp_all
  from m getPortfolioMemory_reads [OF fr1(1-3), of runtime uid]
  obtain w2 where g: "getPortfolioMemory runtime uid w1 = (Some m, w2)"
    by (cases "getPortfolioMemory runtime uid w1") simp
  with getPortfolioMemory_frame [of runtime uid w1] fr1
  have fr2: "memories w2 = memories w" "clock w2 = clock w" "clock_reads w2 = Suc (clock_reads w)"
    by simp_all
  let ?merged = "(items (content m) ! i)
         \<lparr>quantity := q0 + q1, purchasePrice := (q0 * c0 + q1 * p1) / (q0 + q1),
          purchaseDate := clock w (clock_reads w + 2)\<rparr>"
  let ?w4 = "w2\<lparr>clock_reads := Suc (Suc (clock_reads w2))\<rparr>"
  from addToPortfolio_existing [OF r g, of i q1 p1] i q0 c0 fr2
  have eq: "addToPortfolio runtime uid cid q1 p1 w =
      (Some ?merged, savePortfolio runtime uid ((items (content m))[i := ?merged]) ?w4)"
    by (simp add: eval_nat_numeral)
  then show "fst (addToPortfolio runtime uid cid q1 p1 w) = Some ?merged"
    by simp
  from pos show "0 < q0 + q1"
    by simp
  from pos have "0 < q0 * c0 + q1 * p1"
    by (simp add: add_pos_pos)
  with pos show "0 < (q0 * c0 + q1 * p1) / (q0 + q1)"
    by simp
  show "\<exists>m'. fst (getPortfolioMemory runtime uid (snd (addToPortfolio runtime uid cid q1 p1 w)))
                = Some m' \<and>
              items (content m') = (items (content m))[i := ?merged]"
    if ud: "is_uuid uid \<and> distinct (map mem_id (memories w))"
  proof -
    from ud have u: "is_uuid uid" and d: "distinct (map mem_id (memories w))"
      by simp_all
    from g u getPortfolioMemory_uuid [OF u, of runtime w1] have "w2 = w1"
      by simp
    with fr1 fr2 have "memories ?w4 = memories w" "uuids ?w4 = uuids w" "uuid_reads ?w4 = uuid_reads w"
      by simp_all
    from getPortfolioMemory_reads [OF this, of runtime uid] m
    have m4: "fst (getPortfolioMemory runtime uid ?w4) = Some m"
      by simp
    from d fr2 have "distinct (map mem_id (memories ?w4))"
      by simp
    from savePortfolio_then_read [OF u m4 this, of "(items (content m))[i := ?merged]"]
    show ?thesis
      by (simp add: eq)
  qed
qed

theorem addToPortfolio_weighted_average_witness:
  "fst (addToPortfolio the_runtime alice ''BTC'' 3 140 after_first_purchase) =
     Some \<lparr>coinId = ''bitcoin'', symbol = ''BTC'', name = ''Bitcoin'', quantity = 4,
           purchasePrice = 130, purchaseDate = 106000\<rparr> \<and>
   (\<exists>m'. fst (getPortfolioMemory the_runtime alice
              (snd (addToPortfolio the_runtime alice ''BTC'' 3 140 after_first_purchase))) = Some m' \<and>
         items (content m') =
           [\<lparr>coinId = ''bitcoin'', symbol = ''BTC'', name = ''Bitcoin'', quantity = 4,
             purchasePrice = 130, purchaseDate = 106000\<rparr>]) \<and>
   (130 :: real) \<noteq> (100 + 140) / 2"
proof -
  let ?first = "\<lparr>coinId = ''bitcoin'', symbol = ''BTC'', name = ''Bitcoin'', quantity = 1,
           purchasePrice = 100, purchaseDate = 101000\<rparr>"
  let ?m = "\<lparr>mem_id = ''00000000-0000-4000-8000-000000000000'', mem_userId = PORTFOLIO_AGENT,
      roomId = alice, agentId = PORTFOLIO_AGENT,
      content = \<lparr>action = ''CRYPTO_PORTFOLIO'', userId = alice, items = [?first],
                 lastUpdated = 102000, text_c = []\<rparr>,
      createdAt = 103000, unique = True, embedding = None\<rparr>"
  have a: "fst (getCryptoByIdOrSymbol ''BTC'' ''usd'' after_first_purchase) = Some bitcoin"
    by code_simp
  have b: "fst (getPortfolioMemory the_runtime alice after_first_purchase) = Some ?m"
    by code_simp
  have c: "findIndex (\<lambda>item. coinId item = coin_id bitcoin) (items (content ?m)) = Some 0"
    by (simp add: bitcoin_def)
  have d: "is_uuid alice \<and> distinct (map mem_id (memories after_first_purchase))"
    by code_simp
  have e: "clock after_first_purchase (clock_reads after_first_purchase + 2) = 106000"
    by code_simp
  note t = addToPortfolio_weighted_average
    [where cid = "''BTC''" and w = after_first_purchase and coin = bitcoin
       and runtime = the_runtime and uid = alice and m = ?m and i = 0
       and ?q0.0 = 1 and ?c0.0 = 100 and ?q1.0 = 3 and ?p1.0 = 140]
  from t a b c d e show ?thesis
    by simp
qed

end
